theory Spec2Isabelle
  imports Main "HOL-Library.Monad_Syntax"
begin

section \<open>JSON documents and the JavaScript values the validator reads\<close>

text \<open>
  The three source files (\<^verbatim>\<open>snippets/settings-sandbox.jsx\<close> and the two earlier variants
  \<^verbatim>\<open>part_000\<close>, \<^verbatim>\<open>part_001\<close>) validate the value that \<^verbatim>\<open>JSON.parse\<close> returns. That value
  is a tree of JSON data. An object is kept as the list of its own properties, each key
  once; a string is a list of code units, kept to the 8-bit range of \<^typ>\<open>char\<close>. The
  program only tests numbers for truthiness and interpolates them into messages; a number
  is kept as an integer, and the model covers the integers of magnitude up to \<open>2^53\<close>,
  which JavaScript holds exactly and prints digit by digit. Fractions and larger numbers
  are outside the model. The depth of recursion that an engine allows is not modelled.
\<close>

datatype json =
    JNull
  | JBool bool
  | JNum int
  | JStr string
  | JArr "json list"
  | JObj "(string \<times> json) list"

text \<open>
  Reading a property yields JSON data, \<^verbatim>\<open>undefined\<close>, or a method inherited from a
  prototype. The program reads properties under fixed names only (\<^verbatim>\<open>theme\<close>, \<^verbatim>\<open>pages\<close>,
  \<^verbatim>\<open>href\<close> and so on). None of these names is a property of \<^verbatim>\<open>Object.prototype\<close>,
  \<^verbatim>\<open>Array.prototype\<close>, \<^verbatim>\<open>Number.prototype\<close> or \<^verbatim>\<open>Boolean.prototype\<close>, and only
  \<^verbatim>\<open>anchor\<close> is one of \<^verbatim>\<open>String.prototype\<close>: read from a string it is a method.
\<close>

datatype jsval = Undefined | Native string | Val json

text \<open>A thrown \<^verbatim>\<open>TypeError\<close> is the value \<open>None\<close> of the option monad.\<close>

fun truthy :: "jsval \<Rightarrow> bool" where
  "truthy Undefined = False"
| "truthy (Native f) = True"
| "truthy (Val JNull) = False"
| "truthy (Val (JBool b)) = b"
| "truthy (Val (JNum n)) = (n \<noteq> 0)"
| "truthy (Val (JStr s)) = (s \<noteq> [])"
| "truthy (Val (JArr xs)) = True"
| "truthy (Val (JObj kvs)) = True"

text \<open>\<^verbatim>\<open>v.k\<close>: a \<^verbatim>\<open>TypeError\<close> on \<^verbatim>\<open>undefined\<close> and \<^verbatim>\<open>null\<close>.\<close>

fun getProp :: "jsval \<Rightarrow> string \<Rightarrow> jsval option" where
  "getProp Undefined k = None"
| "getProp (Val JNull) k = None"
| "getProp (Val (JObj kvs)) k = Some (case map_of kvs k of Some v \<Rightarrow> Val v | None \<Rightarrow> Undefined)"
| "getProp (Val (JStr s)) k = Some (if k = ''anchor'' then Native ''anchor'' else Undefined)"
| "getProp (Val (JArr xs)) k = Some Undefined"
| "getProp (Val (JBool b)) k = Some Undefined"
| "getProp (Val (JNum n)) k = Some Undefined"
| "getProp (Native f) k = Some (if k = ''name'' then Val (JStr f) else Undefined)"

text \<open>\<^verbatim>\<open>typeof v === 'string'\<close> and \<^verbatim>\<open>typeof v === 'object' && v !== null\<close>.\<close>

fun isString :: "jsval \<Rightarrow> bool" where
  "isString (Val (JStr s)) = True"
| "isString v = False"

fun isObject :: "jsval \<Rightarrow> bool" where
  "isObject (Val (JArr xs)) = True"
| "isObject (Val (JObj kvs)) = True"
| "isObject v = False"

fun isArray :: "jsval \<Rightarrow> bool" where
  "isArray (Val (JArr xs)) = True"
| "isArray v = False"

subsection \<open>Conversion to string, as a template literal does it\<close>

fun showNat :: "nat \<Rightarrow> string" where
  "showNat n = (if n < 10 then [''0123456789'' ! n]
                else showNat (n div 10) @ [''0123456789'' ! (n mod 10)])"

declare showNat.simps [simp del]

definition showInt :: "int \<Rightarrow> string" where
  "showInt i = (if i < 0 then CHR ''-'' # showNat (nat (- i)) else showNat (nat i))"

text \<open>
  An object converts through \<^verbatim>\<open>Object.prototype.toString\<close>; when it has a property of
  its own called \<^verbatim>\<open>toString\<close>, that property is JSON data and not callable, and the
  conversion throws. An array joins its elements with commas, \<^verbatim>\<open>null\<close> as the empty
  string.
\<close>

fun toStrJson :: "json \<Rightarrow> string option"
  and joinJson :: "json list \<Rightarrow> string option" where
  "toStrJson JNull = Some ''null''"
| "toStrJson (JBool b) = Some (if b then ''true'' else ''false'')"
| "toStrJson (JNum n) = Some (showInt n)"
| "toStrJson (JStr s) = Some s"
| "toStrJson (JArr xs) = joinJson xs"
| "toStrJson (JObj kvs) =
     (if ''toString'' \<in> set (map fst kvs) then None else Some ''[object Object]'')"
| "joinJson [] = Some []"
| "joinJson (x # xs) = do {
     a \<leftarrow> (if x = JNull then Some [] else toStrJson x);
     b \<leftarrow> joinJson xs;
     Some (if xs = [] then a else a @ '','' @ b)
   }"

fun toStr :: "jsval \<Rightarrow> string option" where
  "toStr Undefined = Some ''undefined''"
| "toStr (Native f) = Some (''function '' @ f @ ''() { [native code] }'')"
| "toStr (Val j) = toStrJson j"

text \<open>\<^verbatim>\<open>'${v}'\<close> inside a message.\<close>

definition quoted :: "string \<Rightarrow> string" where
  "quoted s = [CHR 0x27] @ s @ [CHR 0x27]"

text \<open>\<^verbatim>\<open>list.join(', ')\<close> on an array of strings.\<close>

fun joinWith :: "string \<Rightarrow> string list \<Rightarrow> string" where
  "joinWith sep [] = []"
| "joinWith sep [x] = x"
| "joinWith sep (x # y # ys) = x @ sep @ joinWith sep (y # ys)"

text \<open>\<^verbatim>\<open>list.includes(v)\<close> on an array of strings: only an equal string is found.\<close>

fun arrayIncludes :: "string list \<Rightarrow> jsval \<Rightarrow> bool" where
  "arrayIncludes xs (Val (JStr s)) = (s \<in> set xs)"
| "arrayIncludes xs v = False"

subsection \<open>String methods and the regular expressions of the source\<close>

fun split :: "char \<Rightarrow> string \<Rightarrow> string list" where
  "split c [] = [[]]"
| "split c (x # xs) =
     (if x = c then [] # split c xs
      else (case split c xs of p # ps \<Rightarrow> (x # p) # ps | [] \<Rightarrow> [[x]]))"

definition startsWith :: "string \<Rightarrow> string \<Rightarrow> bool" where
  "startsWith s p = (take (length p) s = p)"

definition endsWith :: "string \<Rightarrow> string \<Rightarrow> bool" where
  "endsWith s p = (length p \<le> length s \<and> drop (length s - length p) s = p)"

text \<open>\<^verbatim>\<open>s.includes(p)\<close> on a string: \<open>p\<close> occurs in \<open>s\<close>.\<close>

fun stringIncludes :: "string \<Rightarrow> string \<Rightarrow> bool" where
  "stringIncludes [] p = (p = [])"
| "stringIncludes (x # xs) p = (startsWith (x # xs) p \<or> stringIncludes xs p)"

definition isHexDigit :: "char \<Rightarrow> bool" where
  "isHexDigit c = (c \<in> set ''0123456789ABCDEFabcdef'')"

definition isUpperAlnum :: "char \<Rightarrow> bool" where
  "isUpperAlnum c = (c \<in> set ''ABCDEFGHIJKLMNOPQRSTUVWXYZ0123456789'')"

definition lowerAscii :: "char \<Rightarrow> char" where
  "lowerAscii c =
     (case map_of (zip ''ABCDEFGHIJKLMNOPQRSTUVWXYZ'' ''abcdefghijklmnopqrstuvwxyz'') c of
        Some d \<Rightarrow> d | None \<Rightarrow> c)"

text \<open>\<^verbatim>\<open>/^#[0-9A-Fa-f]{6}$/\<close>\<close>

definition hexColorRe :: "string \<Rightarrow> bool" where
  "hexColorRe s = (case s of [] \<Rightarrow> False
     | c # cs \<Rightarrow> c = CHR ''#'' \<and> length cs = 6 \<and> list_all isHexDigit cs)"

text \<open>\<^verbatim>\<open>/^https?:\/\//\<close>\<close>

definition httpUrlRe :: "string \<Rightarrow> bool" where
  "httpUrlRe s = (startsWith s ''http://'' \<or> startsWith s ''https://'')"

text \<open>\<^verbatim>\<open>/\.(ico|png|svg)$/i\<close>\<close>

definition faviconRe :: "string \<Rightarrow> bool" where
  "faviconRe s = (let t = map lowerAscii s in
     endsWith t ''.ico'' \<or> endsWith t ''.png'' \<or> endsWith t ''.svg'')"

text \<open>\<^verbatim>\<open>/^G-[A-Z0-9]+$/\<close> and \<^verbatim>\<open>/^GTM-[A-Z0-9]+$/\<close>\<close>

definition idRe :: "string \<Rightarrow> string \<Rightarrow> bool" where
  "idRe p s = (startsWith s p \<and> drop (length p) s \<noteq> [] \<and>
     list_all isUpperAlnum (drop (length p) s))"

text \<open>
  \<^verbatim>\<open>v.match(re)\<close>, read for its truthiness. Only a string has the method; on anything
  else the call throws.
\<close>

fun match :: "jsval \<Rightarrow> (string \<Rightarrow> bool) \<Rightarrow> bool option" where
  "match (Val (JStr s)) re = Some (re s)"
| "match v re = None"

text \<open>\<^verbatim>\<open>v.startsWith(p)\<close>, throwing in the same way.\<close>

fun startsWithM :: "jsval \<Rightarrow> string \<Rightarrow> bool option" where
  "startsWithM (Val (JStr s)) p = Some (startsWith s p)"
| "startsWithM v p = None"

text \<open>
  \<^verbatim>\<open>arr.forEach((x, index) => ...)\<close> with the arrays the callback pushes to passed
  as state. Only an array has the method.
\<close>

fun forEachFrom :: "(json \<Rightarrow> nat \<Rightarrow> 's \<Rightarrow> 's option) \<Rightarrow> json list \<Rightarrow> nat \<Rightarrow> 's \<Rightarrow> 's option" where
  "forEachFrom f [] i s = Some s"
| "forEachFrom f (x # xs) i s = do { s' \<leftarrow> f x i s; forEachFrom f xs (Suc i) s' }"

fun forEach :: "jsval \<Rightarrow> (json \<Rightarrow> nat \<Rightarrow> 's \<Rightarrow> 's option) \<Rightarrow> 's \<Rightarrow> 's option" where
  "forEach (Val (JArr xs)) f s = forEachFrom f xs 0 s"
| "forEach v f s = None"

section \<open>\<^verbatim>\<open>snippets/settings-sandbox.jsx\<close>: the path scanner\<close>

text \<open>
  \<^verbatim>\<open>checkNavigationPaths(items, warnings, context = '')\<close>, lines 39 to 71. The array
  \<^verbatim>\<open>warnings\<close> that the source pushes to is passed in and returned. The second function
  runs \<^verbatim>\<open>forEach\<close> over the elements in order, the third is its callback.
\<close>

definition reservedPath :: "string \<Rightarrow> bool" where
  "reservedPath s = (''mcp'' \<in> set (split CHR ''/'' s))"

definition reservedMsg :: string where
  "reservedMsg = '' uses reserved path. /mcp paths are reserved and may cause 404 errors''"

text \<open>\<^verbatim>\<open>a || b\<close>\<close>

definition orElse :: "jsval \<Rightarrow> jsval \<Rightarrow> jsval" where
  "orElse a b = (if truthy a then a else b)"

fun jsize :: "jsval \<Rightarrow> nat" where
  "jsize (Val j) = size j"
| "jsize v = 0"

lemma map_of_size:
  "map_of kvs k = Some v \<Longrightarrow> size v < Suc (size_list (size_prod (\<lambda>_. 0) size) kvs)"
  by (induction kvs) (auto split: if_splits)

lemma getProp_size: "getProp (Val item) k = Some p \<Longrightarrow> jsize p \<le> size item"
  by (cases item) (auto split: option.splits if_splits dest: map_of_size)

text \<open>
  The context handed down to \<^verbatim>\<open>item.pages\<close> (line 52):
  \<^verbatim>\<open>context || `Navigation item '${item.group || item.item || item.tab || item.anchor || item.dropdown}'`\<close>
\<close>

definition pagesContext :: "json \<Rightarrow> string \<Rightarrow> string option" where
  "pagesContext item context =
     (if context \<noteq> [] then Some context
      else do {
        g \<leftarrow> getProp (Val item) ''group'';
        i \<leftarrow> getProp (Val item) ''item'';
        t \<leftarrow> getProp (Val item) ''tab'';
        a \<leftarrow> getProp (Val item) ''anchor'';
        d \<leftarrow> getProp (Val item) ''dropdown'';
        n \<leftarrow> toStr (orElse g (orElse i (orElse t (orElse a d))));
        Some (''Navigation item '' @ quoted n)
      })"

text \<open>The context handed down to \<^verbatim>\<open>item.menu\<close> (line 58): \<^verbatim>\<open>context || `Tab '${item.tab}'`\<close>\<close>

definition menuContext :: "json \<Rightarrow> string \<Rightarrow> string option" where
  "menuContext item context =
     (if context \<noteq> [] then Some context
      else do {
        t \<leftarrow> getProp (Val item) ''tab'';
        n \<leftarrow> toStr t;
        Some (''Tab '' @ quoted n)
      })"

text \<open>Lines 60 to 68: the check of \<^verbatim>\<open>item.href\<close>.\<close>

definition checkHref :: "jsval \<Rightarrow> string list \<Rightarrow> string \<Rightarrow> string list" where
  "checkHref href warns context =
     (case href of
        Val (JStr h) \<Rightarrow>
          if h \<noteq> [] \<and> \<not> startsWith h ''http'' \<and> reservedPath h
          then warns @ [context @ '' href '' @ quoted h @ reservedMsg]
          else warns
      | _ \<Rightarrow> warns)"

function checkNavigationPaths :: "jsval \<Rightarrow> string list \<Rightarrow> string \<Rightarrow> string list option"
  and checkNavigationPaths_forEach :: "json list \<Rightarrow> string list \<Rightarrow> string \<Rightarrow> string list option"
  and checkNavigationPaths_callback :: "json \<Rightarrow> string list \<Rightarrow> string \<Rightarrow> string list option"
where
  "checkNavigationPaths items warns context =
     (case items of
        Val (JArr xs) \<Rightarrow> checkNavigationPaths_forEach xs warns context
      | _ \<Rightarrow> Some warns)"
| "checkNavigationPaths_forEach [] warns context = Some warns"
| "checkNavigationPaths_forEach (item # rest) warns context = do {
     w \<leftarrow> checkNavigationPaths_callback item warns context;
     checkNavigationPaths_forEach rest w context
   }"
| "checkNavigationPaths_callback item warns context =
     (case item of
        JStr s \<Rightarrow>
          Some (if reservedPath s
                then warns @ [context @ '' page '' @ quoted s @ reservedMsg]
                else warns)
      | _ \<Rightarrow>
          if isObject (Val item) then do {
            pages \<leftarrow> getProp (Val item) ''pages'';
            w1 \<leftarrow> (if truthy pages then do {
                     c \<leftarrow> pagesContext item context;
                     checkNavigationPaths pages warns c
                   } else Some warns);
            groups \<leftarrow> getProp (Val item) ''groups'';
            w2 \<leftarrow> (if truthy groups then checkNavigationPaths groups w1 context
                   else Some w1);
            menu \<leftarrow> getProp (Val item) ''menu'';
            w3 \<leftarrow> (if truthy menu then do {
                     c \<leftarrow> menuContext item context;
                     checkNavigationPaths menu w2 c
                   } else Some w2);
            href \<leftarrow> getProp (Val item) ''href'';
            Some (checkHref href w3 context)
          } else Some warns)"
  by pat_completeness auto

termination
  by (relation "measure (\<lambda>x. case x of
        Inl (items, _, _) \<Rightarrow> 3 * jsize items
      | Inr (Inl (xs, _, _)) \<Rightarrow> 3 * size_list size xs + 2
      | Inr (Inr (item, _, _)) \<Rightarrow> 3 * size item + 1)")
     (auto dest!: getProp_size simp del: getProp.simps)

declare checkNavigationPaths.simps [simp del]

declare checkNavigationPaths_callback.simps [simp del]

section \<open>\<^verbatim>\<open>snippets/settings-sandbox.jsx\<close>: the validation helpers\<close>

text \<open>
  Each helper takes the parsed document and the arrays it pushes to (\<^verbatim>\<open>errors\<close>,
  \<^verbatim>\<open>warnings\<close>) and returns the arrays as it leaves them, or \<open>None\<close> when it throws.
\<close>

definition validThemes :: "string list" where
  "validThemes = [''mint'', ''maple'', ''palm'', ''willow'', ''linden'', ''almond'', ''aspen'']"

definition themeRequiredMsg :: string where
  "themeRequiredMsg =
     '''theme' is required. Must be one of: mint, maple, palm, willow, linden, almond, aspen''"

definition nameRequiredMsg :: string where
  "nameRequiredMsg =
     '''name' is required. This is the name of your project, organization, or product''"

definition invalidThemeMsg :: "string \<Rightarrow> string" where
  "invalidThemeMsg t =
     ''Invalid theme '' @ quoted t @ ''. Must be one of: '' @ joinWith '', '' validThemes"

text \<open>\<^verbatim>\<open>validateRequiredFields(config, errors)\<close>, lines 152 to 165.\<close>

definition validateRequiredFields :: "json \<Rightarrow> string list \<Rightarrow> string list option" where
  "validateRequiredFields config errs = do {
     theme \<leftarrow> getProp (Val config) ''theme'';
     errs1 \<leftarrow> (if \<not> truthy theme then Some (errs @ [themeRequiredMsg])
               else if \<not> arrayIncludes validThemes theme then do {
                 t \<leftarrow> toStr theme;
                 Some (errs @ [invalidThemeMsg t])
               }
               else Some errs);
     name \<leftarrow> getProp (Val config) ''name'';
     Some (if \<not> truthy name then errs1 @ [nameRequiredMsg] else errs1)
   }"

definition primaryRequiredMsg :: string where
  "primaryRequiredMsg =
     '''colors.primary' is required. Must be a hex color code starting with #''"

definition primaryInvalidMsg :: string where
  "primaryInvalidMsg = '''colors.primary' must be a valid hex color code (e.g., #ff0000)''"

text \<open>The check on \<^verbatim>\<open>colors.primary\<close>, lines 168 to 172.\<close>

definition checkPrimary :: "json \<Rightarrow> string list \<Rightarrow> string list option" where
  "checkPrimary config errs = do {
     colors \<leftarrow> getProp (Val config) ''colors'';
     if \<not> truthy colors then Some (errs @ [primaryRequiredMsg])
     else do {
       primary \<leftarrow> getProp colors ''primary'';
       if \<not> truthy primary then Some (errs @ [primaryRequiredMsg])
       else do {
         m \<leftarrow> match primary hexColorRe;
         Some (if \<not> m then errs @ [primaryInvalidMsg] else errs)
       }
     }
   }"

text \<open>The callback of \<^verbatim>\<open>['light', 'dark'].forEach\<close>, lines 176 to 180.\<close>

definition checkMode :: "jsval \<Rightarrow> string \<Rightarrow> string list \<Rightarrow> string list option" where
  "checkMode colors mode errs = do {
     c \<leftarrow> getProp colors mode;
     if truthy c then do {
       m \<leftarrow> match c hexColorRe;
       Some (if \<not> m
             then errs @ [[CHR 0x27] @ ''colors.'' @ mode @
                          ''' must be a valid hex color code (e.g., #ff0000)'']
             else errs)
     } else Some errs
   }"

text \<open>The optional colours, lines 175 to 181.\<close>

definition checkOptionalColors :: "json \<Rightarrow> string list \<Rightarrow> string list option" where
  "checkOptionalColors config errs = do {
     colors \<leftarrow> getProp (Val config) ''colors'';
     if truthy colors then do {
       errs1 \<leftarrow> checkMode colors ''light'' errs;
       checkMode colors ''dark'' errs1
     } else Some errs
   }"

text \<open>\<^verbatim>\<open>validateColors(config, errors)\<close>, lines 167 to 182.\<close>

definition validateColors :: "json \<Rightarrow> string list \<Rightarrow> string list option" where
  "validateColors config errs = do {
     errs1 \<leftarrow> checkPrimary config errs;
     checkOptionalColors config errs1
   }"

subsection \<open>\<^verbatim>\<open>validateNavigation(config, errors, warnings)\<close>, lines 184 to 290\<close>

text \<open>
  The \<^verbatim>\<open>forEach\<close> callbacks first. The repeated shape
  \<^verbatim>\<open>if (!x.key) errors.push(`Navigation <label> at index ${index} is missing '<key>' property`)\<close>
  is written once.
\<close>

definition missingMsg :: "string \<Rightarrow> nat \<Rightarrow> string \<Rightarrow> string" where
  "missingMsg label index key =
     label @ '' at index '' @ showNat index @ '' is missing '' @ quoted key @ '' property''"

definition requireKey :: "string \<Rightarrow> string \<Rightarrow> json \<Rightarrow> nat \<Rightarrow> string list \<Rightarrow> string list option" where
  "requireKey label key x index errs = do {
     v \<leftarrow> getProp (Val x) key;
     Some (if \<not> truthy v then errs @ [missingMsg label index key] else errs)
   }"

text \<open>Lines 196 to 203.\<close>

definition groupCallback :: "json \<Rightarrow> nat \<Rightarrow> string list \<Rightarrow> string list option" where
  "groupCallback grp index errs = do {
     errs1 \<leftarrow> requireKey ''Navigation group'' ''group'' grp index errs;
     pages \<leftarrow> getProp (Val grp) ''pages'';
     if \<not> (truthy pages \<and> isArray pages) then do {
       g \<leftarrow> getProp (Val grp) ''group'';
       n \<leftarrow> toStr g;
       Some (errs1 @ [''Navigation group '' @ quoted n @ '' is missing 'pages' array''])
     } else Some errs1
   }"

text \<open>Lines 215 to 219, inside the callback for the tab \<open>tab\<close>.\<close>

definition menuItemCallback :: "json \<Rightarrow> json \<Rightarrow> nat \<Rightarrow> string list \<Rightarrow> string list option" where
  "menuItemCallback tab menuItem menuIndex errs = do {
     i \<leftarrow> getProp (Val menuItem) ''item'';
     if \<not> truthy i then do {
       t \<leftarrow> getProp (Val tab) ''tab'';
       n \<leftarrow> toStr t;
       Some (errs @ [''Menu item at index '' @ showNat menuIndex @ '' in tab '' @ quoted n @
                     '' is missing 'item' property''])
     } else Some errs
   }"

text \<open>Lines 209 to 221.\<close>

definition tabCallback :: "json \<Rightarrow> nat \<Rightarrow> string list \<Rightarrow> string list option" where
  "tabCallback tab index errs = do {
     errs1 \<leftarrow> requireKey ''Navigation tab'' ''tab'' tab index errs;
     menu \<leftarrow> getProp (Val tab) ''menu'';
     if truthy menu then forEach menu (menuItemCallback tab) errs1 else Some errs1
   }"

text \<open>
  \<^verbatim>\<open>if (x.key) checkNavigationPaths(x.key, warnings, `<label> '${name}'`)\<close>, the
  shape of lines 251 to 255 and 268 to 272.
\<close>

definition scanUnder :: "string \<Rightarrow> jsval \<Rightarrow> json \<Rightarrow> string \<Rightarrow> string list \<Rightarrow> string list option" where
  "scanUnder label name x key warns = do {
     sub \<leftarrow> getProp (Val x) key;
     if truthy sub then do {
       n \<leftarrow> toStr name;
       checkNavigationPaths sub warns (label @ '' '' @ quoted n)
     } else Some warns
   }"

definition scanAll :: "string \<Rightarrow> jsval \<Rightarrow> json \<Rightarrow> string list \<Rightarrow> string list option" where
  "scanAll label name x warns = do {
     w1 \<leftarrow> scanUnder label name x ''pages'' warns;
     w2 \<leftarrow> scanUnder label name x ''groups'' w1;
     w3 \<leftarrow> scanUnder label name x ''tabs'' w2;
     w4 \<leftarrow> scanUnder label name x ''anchors'' w3;
     scanUnder label name x ''dropdowns'' w4
   }"

text \<open>Lines 247 to 256. The state is the pair of \<^verbatim>\<open>errors\<close> and \<^verbatim>\<open>warnings\<close>.\<close>

definition versionCallback ::
  "json \<Rightarrow> nat \<Rightarrow> string list \<times> string list \<Rightarrow> (string list \<times> string list) option" where
  "versionCallback version index st = do {
     errs1 \<leftarrow> requireKey ''Navigation version'' ''version'' version index (fst st);
     v \<leftarrow> getProp (Val version) ''version'';
     warns1 \<leftarrow> scanAll ''Version'' v version (snd st);
     Some (errs1, warns1)
   }"

definition validLanguages :: "string list" where
  "validLanguages = [''ar'', ''cn'', ''zh-Hant'', ''en'', ''fr'', ''de'', ''id'', ''it'', ''jp'',
     ''ko'', ''pt-BR'', ''ru'', ''es'', ''tr'']"

text \<open>Lines 262 to 273.\<close>

definition languageCallback ::
  "json \<Rightarrow> nat \<Rightarrow> string list \<times> string list \<Rightarrow> (string list \<times> string list) option" where
  "languageCallback language index st = do {
     l \<leftarrow> getProp (Val language) ''language'';
     st1 \<leftarrow> (if \<not> truthy l
              then Some (fst st @ [missingMsg ''Navigation language'' index ''language''], snd st)
              else if \<not> arrayIncludes validLanguages l then do {
                n \<leftarrow> toStr l;
                Some (fst st, snd st @ [''Language code '' @ quoted n @
                  '' may not be supported. Supported codes: '' @ joinWith '', '' validLanguages])
              }
              else Some st);
     warns1 \<leftarrow> scanAll ''Language'' l language (snd st1);
     Some (fst st1, warns1)
   }"

text \<open>Lines 278 to 287.\<close>

definition globalAnchorCallback :: "json \<Rightarrow> nat \<Rightarrow> string list \<Rightarrow> string list option" where
  "globalAnchorCallback anchor index errs = do {
     errs1 \<leftarrow> requireKey ''Global anchor'' ''anchor'' anchor index errs;
     href \<leftarrow> getProp (Val anchor) ''href'';
     a \<leftarrow> getProp (Val anchor) ''anchor'';
     if \<not> truthy href then do {
       n \<leftarrow> toStr a;
       Some (errs1 @ [''Global anchor '' @ quoted n @ '' is missing 'href' property''])
     } else do {
       ext \<leftarrow> startsWithM href ''http'';
       if \<not> ext then do {
         n \<leftarrow> toStr a;
         Some (errs1 @ [''Global anchor '' @ quoted n @
                        '' href must be an external URL starting with http/https''])
       } else Some errs1
     }
   }"

text \<open>
  The blocks of the body, in the order of the source. \<open>nav\<close> is
  \<^verbatim>\<open>config.navigation\<close>, already known to be truthy.
\<close>

text \<open>Lines 191 to 193.\<close>

definition navPages :: "jsval \<Rightarrow> string list \<times> string list \<Rightarrow> (string list \<times> string list) option" where
  "navPages nav st = do {
     pages \<leftarrow> getProp nav ''pages'';
     if truthy pages then do {
       warns1 \<leftarrow> checkNavigationPaths pages (snd st) ''Root navigation'';
       Some (fst st, warns1)
     } else Some st
   }"

text \<open>
  Lines 195 to 205, 208 to 223, 226 to 233 and 236 to 243: the entries of
  \<^verbatim>\<open>navigation[key]\<close> are checked by a callback that pushes errors, then scanned with
  the default context.
\<close>

definition navSection ::
  "string \<Rightarrow> (json \<Rightarrow> nat \<Rightarrow> string list \<Rightarrow> string list option) \<Rightarrow> jsval \<Rightarrow>
   string list \<times> string list \<Rightarrow> (string list \<times> string list) option" where
  "navSection key callback nav st = do {
     entries \<leftarrow> getProp nav key;
     if truthy entries then do {
       errs1 \<leftarrow> forEach entries callback (fst st);
       warns1 \<leftarrow> checkNavigationPaths entries (snd st) [];
       Some (errs1, warns1)
     } else Some st
   }"

text \<open>Lines 246 to 257 and 260 to 274.\<close>

definition navScoped ::
  "string \<Rightarrow> (json \<Rightarrow> nat \<Rightarrow> string list \<times> string list \<Rightarrow> (string list \<times> string list) option) \<Rightarrow>
   jsval \<Rightarrow> string list \<times> string list \<Rightarrow> (string list \<times> string list) option" where
  "navScoped key callback nav st = do {
     entries \<leftarrow> getProp nav key;
     if truthy entries then forEach entries callback st else Some st
   }"

text \<open>Lines 277 to 289; \<^verbatim>\<open>config.navigation.global?.anchors\<close> first.\<close>

definition navGlobal :: "jsval \<Rightarrow> string list \<times> string list \<Rightarrow> (string list \<times> string list) option" where
  "navGlobal nav st = do {
     global \<leftarrow> getProp nav ''global'';
     anchors \<leftarrow> (if global = Undefined \<or> global = Val JNull then Some Undefined
                 else getProp global ''anchors'');
     if truthy anchors then do {
       errs1 \<leftarrow> forEach anchors globalAnchorCallback (fst st);
       warns1 \<leftarrow> checkNavigationPaths anchors (snd st) ''Global anchors'';
       Some (errs1, warns1)
     } else Some st
   }"

definition navigationRequiredMsg :: string where
  "navigationRequiredMsg = '''navigation' is required. Define your documentation structure''"

definition validateNavigation ::
  "json \<Rightarrow> string list \<times> string list \<Rightarrow> (string list \<times> string list) option" where
  "validateNavigation config st = do {
     nav \<leftarrow> getProp (Val config) ''navigation'';
     if \<not> truthy nav then Some (fst st @ [navigationRequiredMsg], snd st)
     else do {
       st1 \<leftarrow> navPages nav st;
       st2 \<leftarrow> navSection ''groups'' groupCallback nav st1;
       st3 \<leftarrow> navSection ''tabs'' tabCallback nav st2;
       st4 \<leftarrow> navSection ''anchors'' (requireKey ''Navigation anchor'' ''anchor'') nav st3;
       st5 \<leftarrow> navSection ''dropdowns'' (requireKey ''Navigation dropdown'' ''dropdown'') nav st4;
       st6 \<leftarrow> navScoped ''versions'' versionCallback nav st5;
       st7 \<leftarrow> navScoped ''languages'' languageCallback nav st6;
       navGlobal nav st7
     }
   }"

subsection \<open>Assets, integrations, best practices\<close>

text \<open>\<^verbatim>\<open>validateAssets(config, warnings)\<close>, lines 292 to 306.\<close>

definition checkLogo :: "json \<Rightarrow> string list \<Rightarrow> string list option" where
  "checkLogo config warns = do {
     logo \<leftarrow> getProp (Val config) ''logo'';
     if truthy logo \<and> isObject logo then do {
       href \<leftarrow> getProp logo ''href'';
       if truthy href then do {
         m \<leftarrow> match href httpUrlRe;
         Some (if \<not> m
               then warns @ [''Logo 'href' should be a complete URL starting with http:// or https://'']
               else warns)
       } else Some warns
     } else Some warns
   }"

definition checkFavicon :: "json \<Rightarrow> string list \<Rightarrow> string list option" where
  "checkFavicon config warns = do {
     favicon \<leftarrow> getProp (Val config) ''favicon'';
     if truthy favicon then do {
       m \<leftarrow> match favicon faviconRe;
       Some (if \<not> m
             then warns @ [''Favicon should typically be an .ico, .png, or .svg file'']
             else warns)
     } else Some warns
   }"

definition validateAssets :: "json \<Rightarrow> string list \<Rightarrow> string list option" where
  "validateAssets config warns = do {
     warns1 \<leftarrow> checkLogo config warns;
     checkFavicon config warns1
   }"

text \<open>
  \<^verbatim>\<open>if (integrations.svc && integrations.svc.field) if (!integrations.svc.field.match(re)) warnings.push(msg)\<close>,
  lines 311 to 315 and 316 to 320.
\<close>

definition checkId ::
  "jsval \<Rightarrow> string \<Rightarrow> string \<Rightarrow> (string \<Rightarrow> bool) \<Rightarrow> string \<Rightarrow> string list \<Rightarrow> string list option" where
  "checkId integrations svc field re msg warns = do {
     s \<leftarrow> getProp integrations svc;
     if truthy s then do {
       v \<leftarrow> getProp s field;
       if truthy v then do {
         m \<leftarrow> match v re;
         Some (if \<not> m then warns @ [msg] else warns)
       } else Some warns
     } else Some warns
   }"

text \<open>\<^verbatim>\<open>validateIntegrations(config, warnings)\<close>, lines 308 to 321.\<close>

definition validateIntegrations :: "json \<Rightarrow> string list \<Rightarrow> string list option" where
  "validateIntegrations config warns = do {
     integrations \<leftarrow> getProp (Val config) ''integrations'';
     if \<not> truthy integrations then Some warns
     else do {
       warns1 \<leftarrow> checkId integrations ''ga4'' ''measurementId'' (idRe ''G-'')
         (''Google Analytics 4 measurement ID should follow format '' @ quoted ''G-XXXXXXXXX'') warns;
       checkId integrations ''gtm'' ''containerId'' (idRe ''GTM-'')
         (''Google Tag Manager container ID should follow format '' @ quoted ''GTM-XXXXXXX'') warns1
     }
   }"

text \<open>\<^verbatim>\<open>if (!config.key) warnings.push(msg)\<close>\<close>

definition nudge :: "json \<Rightarrow> string \<Rightarrow> string \<Rightarrow> string list \<Rightarrow> string list option" where
  "nudge config key msg warns = do {
     v \<leftarrow> getProp (Val config) key;
     Some (if \<not> truthy v then warns @ [msg] else warns)
   }"

definition schemaNudge :: string where
  \<open>schemaNudge =
     ''Consider adding "$schema": "https://mintlify.com/docs.json" for better IDE support.''\<close>

definition descriptionNudge :: string where
  \<open>descriptionNudge = ''Consider adding a "description" for better SEO and AI indexing.''\<close>

definition faviconNudge :: string where
  \<open>faviconNudge = ''Consider adding a "favicon" for better branding.''\<close>

definition logoNudge :: string where
  \<open>logoNudge = ''Consider adding a "logo" configuration for better branding.''\<close>

text \<open>\<^verbatim>\<open>validateBestPractices(config, warnings)\<close>, lines 323 to 339.\<close>

definition validateBestPractices :: "json \<Rightarrow> string list \<Rightarrow> string list option" where
  "validateBestPractices config warns = do {
     w1 \<leftarrow> nudge config ''$schema'' schemaNudge warns;
     w2 \<leftarrow> nudge config ''description'' descriptionNudge w1;
     w3 \<leftarrow> nudge config ''favicon'' faviconNudge w2;
     nudge config ''logo'' logoNudge w3
   }"

section \<open>\<^verbatim>\<open>snippets/settings-sandbox.jsx\<close>: the validator and the pipeline\<close>

record ValidationResult =
  errors :: "string list"
  warnings :: "string list"
  isValid :: bool

text \<open>\<^verbatim>\<open>validateDocsJson(config)\<close>, lines 342 to 355.\<close>

definition validateDocsJson :: "json \<Rightarrow> ValidationResult option" where
  "validateDocsJson config = do {
     e1 \<leftarrow> validateRequiredFields config [];
     e2 \<leftarrow> validateColors config e1;
     st \<leftarrow> validateNavigation config (e2, []);
     w1 \<leftarrow> validateAssets config (snd st);
     w2 \<leftarrow> validateIntegrations config w1;
     w3 \<leftarrow> validateBestPractices config w2;
     Some \<lparr>errors = fst st, warnings = w3, isValid = (length (fst st) = 0)\<rparr>
   }"

subsection \<open>Parsing and the bodies of the two memos\<close>

text \<open>
  \<^verbatim>\<open>jsonInput.trim()\<close> removes white space and line terminators at both ends; within
  the 8-bit range these are the code units below.
\<close>

definition isWhiteSpace :: "char \<Rightarrow> bool" where
  "isWhiteSpace c = (c \<in> set [CHR 0x09, CHR 0x0A, CHR 0x0B, CHR 0x0C, CHR 0x0D, CHR 0x20, CHR 0xA0])"

definition trim :: "string \<Rightarrow> string" where
  "trim s = rev (dropWhile isWhiteSpace (rev (dropWhile isWhiteSpace s)))"

text \<open>
  \<^verbatim>\<open>JSON.parse\<close> belongs to the platform and is a parameter: it returns the parsed
  value, or \<open>Inl\<close> of the message of the \<^verbatim>\<open>SyntaxError\<close> it throws.

  The body of \<^verbatim>\<open>parsedConfig\<close>, lines 359 to 365.
\<close>

definition parsedConfig :: "(string \<Rightarrow> string + json) \<Rightarrow> string \<Rightarrow> json" where
  "parsedConfig JSON_parse jsonInput =
     (if trim jsonInput = [] then JNull
      else (case JSON_parse jsonInput of Inr v \<Rightarrow> v | Inl message \<Rightarrow> JNull))"

definition parseErrorResult :: "string \<Rightarrow> ValidationResult" where
  "parseErrorResult message =
     \<lparr>errors = [''JSON Parse Error: '' @ message], warnings = [], isValid = False\<rparr>"

text \<open>
  The body of \<^verbatim>\<open>validationResult\<close>, lines 370 to 379, as a function of the two values
  it reads. The outer \<open>option\<close> is \<open>None\<close> when the body throws (nothing catches it),
  the inner one is \<open>None\<close> for the result \<^verbatim>\<open>null\<close>.
\<close>

definition validationResult :: "string \<Rightarrow> json \<Rightarrow> ValidationResult option option" where
  "validationResult jsonInput parsed =
     (if trim jsonInput = [] then Some None
      else if \<not> truthy (Val parsed) then Some (Some (parseErrorResult ''Invalid JSON format''))
      else map_option Some (validateDocsJson parsed))"

subsection \<open>The two memos across renders\<close>

text \<open>
  The component keeps the text in the state \<^verbatim>\<open>jsonInput\<close> (line 4, initially the empty
  string) and derives the two values above through \<^verbatim>\<open>useMemo\<close>. A memo runs its body on
  the first render, and on a later render only when one of its dependencies is not the same
  value as before (\<^verbatim>\<open>Object.is\<close>); otherwise it returns what it returned last time.
  \<^verbatim>\<open>parsedConfig\<close> depends on \<^verbatim>\<open>[jsonInput]\<close> (line 366). \<^verbatim>\<open>validationResult\<close>
  depends on \<^verbatim>\<open>[parsedConfig, validateDocsJson]\<close> (line 380), and \<^verbatim>\<open>validateDocsJson\<close>
  is the same function on every render (its \<^verbatim>\<open>useCallback\<close> depends on callbacks with
  no dependency). So the body of \<^verbatim>\<open>validationResult\<close>, which reads \<^verbatim>\<open>jsonInput\<close> too,
  runs again only when \<^verbatim>\<open>parsedConfig\<close> has changed.

  What the memos hold after a render: the text \<^verbatim>\<open>parsedConfig\<close> was computed from, the
  value of \<^verbatim>\<open>parsedConfig\<close>, and the value of \<^verbatim>\<open>validationResult\<close> (\<open>None\<close> for
  \<^verbatim>\<open>null\<close>). Of a render only the two memos are modelled, not the markup built from
  them.
\<close>

record Memos =
  inputDep :: string
  parsedMemo :: json
  resultMemo :: "ValidationResult option"

text \<open>
  \<^verbatim>\<open>Object.is(previous, parsed)\<close> where \<open>parsed\<close> has just been returned by the body of
  \<^verbatim>\<open>parsedConfig\<close>: an object or an array that \<^verbatim>\<open>JSON.parse\<close> returns is a new one, the
  same as nothing that existed before; \<^verbatim>\<open>null\<close>, booleans, numbers and strings are the
  same when they are equal. (The two zeros of JavaScript are not the same value; both are
  the \<open>0\<close> of the model, and both are falsy, so that the body returns the same result
  for them.)
\<close>

definition sameValue :: "json \<Rightarrow> json \<Rightarrow> bool" where
  "sameValue previous parsed = (\<not> isObject (Val parsed) \<and> previous = parsed)"

text \<open>
  The first render, with \<^verbatim>\<open>jsonInput\<close> the empty string: both bodies run. \<open>None\<close> when
  the body of \<^verbatim>\<open>validationResult\<close> throws.
\<close>

definition mount :: "(string \<Rightarrow> string + json) \<Rightarrow> Memos option" where
  "mount JSON_parse =
     (let parsed = parsedConfig JSON_parse [] in
      map_option (\<lambda>r. \<lparr>inputDep = [], parsedMemo = parsed, resultMemo = r\<rparr>)
        (validationResult [] parsed))"

text \<open>
  The render that follows \<^verbatim>\<open>setJsonInput\<close> (lines 35, 640 and 733), with the new
  value of \<^verbatim>\<open>jsonInput\<close>. Setting the state to the text it already holds changes
  nothing. Otherwise the body of \<^verbatim>\<open>parsedConfig\<close> runs; the body of
  \<^verbatim>\<open>validationResult\<close> runs only when the new \<^verbatim>\<open>parsedConfig\<close> is not the same value
  as the previous one, and the previous result is kept when it does not run.
\<close>

definition render :: "(string \<Rightarrow> string + json) \<Rightarrow> string \<Rightarrow> Memos \<Rightarrow> Memos option" where
  "render JSON_parse jsonInput memos =
     (if jsonInput = inputDep memos then Some memos
      else let parsed = parsedConfig JSON_parse jsonInput in
        if sameValue (parsedMemo memos) parsed
        then Some \<lparr>inputDep = jsonInput, parsedMemo = parsed, resultMemo = resultMemo memos\<rparr>
        else map_option (\<lambda>r. \<lparr>inputDep = jsonInput, parsedMemo = parsed, resultMemo = r\<rparr>)
               (validationResult jsonInput parsed))"

text \<open>
  The memos after the first render and the renders that follow the texts entered since,
  the latest first. \<open>None\<close> when one of the renders throws.
\<close>

fun session :: "(string \<Rightarrow> string + json) \<Rightarrow> string list \<Rightarrow> Memos option" where
  "session JSON_parse [] = mount JSON_parse"
| "session JSON_parse (jsonInput # earlier) =
     session JSON_parse earlier \<bind> render JSON_parse jsonInput"

section \<open>The earlier variants \<^verbatim>\<open>part_000\<close> and \<^verbatim>\<open>part_001\<close>\<close>

text \<open>
  Both inline the checks in one \<^verbatim>\<open>validateDocsJson\<close>. The required fields (lines 46 to
  57 of \<^verbatim>\<open>part_000\<close>, 44 to 55 of \<^verbatim>\<open>part_001\<close>), the primary colour (59 to 63, 57 to
  61) and the optional colours (105 to 111, 100 to 106) are the code of
  \<^const>\<open>validateRequiredFields\<close>, \<^const>\<open>checkPrimary\<close> and \<^const>\<open>checkOptionalColors\<close>
  character for character; they are reused here.
\<close>

text \<open>\<^verbatim>\<open>part_000\<close>, lines 80 to 87: the callback over \<^verbatim>\<open>group.pages\<close>.\<close>

definition pageCallback_part000 :: "json \<Rightarrow> nat \<Rightarrow> string list \<Rightarrow> string list option" where
  "pageCallback_part000 page index warns =
     (case page of
        JStr s \<Rightarrow> Some (if reservedPath s
                         then warns @ [''Page '' @ quoted s @ reservedMsg]
                         else warns)
      | _ \<Rightarrow> Some warns)"

text \<open>\<^verbatim>\<open>part_001\<close>, lines 78 to 82.\<close>

definition pageCallback_part001 :: "json \<Rightarrow> nat \<Rightarrow> string list \<Rightarrow> string list option" where
  "pageCallback_part001 page index warns =
     (case page of
        JStr s \<Rightarrow> Some (if stringIncludes s ''/api'' \<or> stringIncludes s ''/mcp''
                         then warns @ [''Page '' @ quoted s @
                           '' uses reserved path. /api and /mcp paths are reserved and may cause 404 errors'']
                         else warns)
      | _ \<Rightarrow> Some warns)"

text \<open>
  The callback over \<^verbatim>\<open>navigation.groups\<close> (\<^verbatim>\<open>part_000\<close> lines 70 to 89,
  \<^verbatim>\<open>part_001\<close> lines 68 to 84), with the variant's page callback as a parameter.
\<close>

definition groupCallback_old ::
  "(json \<Rightarrow> nat \<Rightarrow> string list \<Rightarrow> string list option) \<Rightarrow>
   json \<Rightarrow> nat \<Rightarrow> string list \<times> string list \<Rightarrow> (string list \<times> string list) option" where
  "groupCallback_old pageCallback grp index st = do {
     errs1 \<leftarrow> groupCallback grp index (fst st);
     pages \<leftarrow> getProp (Val grp) ''pages'';
     warns1 \<leftarrow> (if truthy pages then forEach pages pageCallback (snd st) else Some (snd st));
     Some (errs1, warns1)
   }"

text \<open>The callback over \<^verbatim>\<open>navigation.tabs\<close> (lines 93 to 100, 88 to 95).\<close>

definition tabCallback_old :: "json \<Rightarrow> nat \<Rightarrow> string list \<Rightarrow> string list option" where
  "tabCallback_old tab index errs = do {
     errs1 \<leftarrow> requireKey ''Navigation tab'' ''name'' tab index errs;
     url \<leftarrow> getProp (Val tab) ''url'';
     if \<not> truthy url then do {
       name \<leftarrow> getProp (Val tab) ''name'';
       n \<leftarrow> toStr name;
       Some (errs1 @ [''Navigation tab '' @ quoted n @ '' is missing 'url' property''])
     } else Some errs1
   }"

text \<open>The navigation block (lines 65 to 102, 63 to 97).\<close>

definition navigation_old ::
  "(json \<Rightarrow> nat \<Rightarrow> string list \<Rightarrow> string list option) \<Rightarrow>
   json \<Rightarrow> string list \<times> string list \<Rightarrow> (string list \<times> string list) option" where
  "navigation_old pageCallback config st = do {
     nav \<leftarrow> getProp (Val config) ''navigation'';
     if \<not> truthy nav then Some (fst st @ [navigationRequiredMsg], snd st)
     else do {
       groups \<leftarrow> getProp nav ''groups'';
       st1 \<leftarrow> (if truthy groups then forEach groups (groupCallback_old pageCallback) st
                else Some st);
       tabs \<leftarrow> getProp nav ''tabs'';
       if truthy tabs then do {
         errs1 \<leftarrow> forEach tabs tabCallback_old (fst st1);
         Some (errs1, snd st1)
       } else Some st1
     }
   }"

text \<open>\<^verbatim>\<open>validateDocsJson\<close> of \<^verbatim>\<open>part_000\<close>, lines 41 to 123.\<close>

definition validateDocsJson_part000 :: "json \<Rightarrow> ValidationResult option" where
  "validateDocsJson_part000 config = do {
     e1 \<leftarrow> validateRequiredFields config [];
     e2 \<leftarrow> checkPrimary config e1;
     st \<leftarrow> navigation_old pageCallback_part000 config (e2, []);
     e3 \<leftarrow> checkOptionalColors config (fst st);
     w1 \<leftarrow> nudge config ''$schema'' schemaNudge (snd st);
     w2 \<leftarrow> nudge config ''description'' descriptionNudge w1;
     Some \<lparr>errors = e3, warnings = w2, isValid = (length e3 = 0)\<rparr>
   }"

text \<open>
  \<^verbatim>\<open>part_001\<close>, lines 108 to 115 and 117 to 124: the variants of \<^verbatim>\<open>favicon\<close> and of
  \<^verbatim>\<open>logo\<close>.
\<close>

definition checkVariant :: "jsval \<Rightarrow> string \<Rightarrow> string \<Rightarrow> string \<Rightarrow> string list \<Rightarrow> string list option" where
  "checkVariant asset key mode what warns = do {
     v \<leftarrow> getProp asset mode;
     Some (if truthy v \<and> \<not> isString v
           then warns @ [[CHR 0x27] @ key @ ''.'' @ mode @ ''' should be a string path to '' @
                          what @ '' file'']
           else warns)
   }"

definition checkVariants :: "json \<Rightarrow> string \<Rightarrow> string \<Rightarrow> string list \<Rightarrow> string list option" where
  "checkVariants config key what warns = do {
     asset \<leftarrow> getProp (Val config) key;
     if truthy asset \<and> \<not> isString asset then do {
       w1 \<leftarrow> checkVariant asset key ''light'' what warns;
       checkVariant asset key ''dark'' what w1
     } else Some warns
   }"

definition schemaNudge_part001 :: string where
  "schemaNudge_part001 =
     ''Consider adding '$schema': 'https://mintlify.com/docs.json' for better IDE support''"

definition descriptionNudge_part001 :: string where
  "descriptionNudge_part001 = ''Consider adding 'description' for better SEO and AI indexing''"

text \<open>\<^verbatim>\<open>validateDocsJson\<close> of \<^verbatim>\<open>part_001\<close>, lines 39 to 136.\<close>

definition validateDocsJson_part001 :: "json \<Rightarrow> ValidationResult option" where
  "validateDocsJson_part001 config = do {
     e1 \<leftarrow> validateRequiredFields config [];
     e2 \<leftarrow> checkPrimary config e1;
     st \<leftarrow> navigation_old pageCallback_part001 config (e2, []);
     e3 \<leftarrow> checkOptionalColors config (fst st);
     w1 \<leftarrow> checkVariants config ''favicon'' ''favicon'' (snd st);
     w2 \<leftarrow> checkVariants config ''logo'' ''logo'' w1;
     w3 \<leftarrow> nudge config ''$schema'' schemaNudge_part001 w2;
     w4 \<leftarrow> nudge config ''description'' descriptionNudge_part001 w3;
     Some \<lparr>errors = e3, warnings = w4, isValid = (length e3 = 0)\<rparr>
   }"

text \<open>
  The effect that runs on every change of the input (\<^verbatim>\<open>part_000\<close> lines 125 to 145,
  \<^verbatim>\<open>part_001\<close> lines 142 to 162): parsing and validation stand inside one
  \<^verbatim>\<open>try\<close>, and whatever is thrown is reported through its \<^verbatim>\<open>message\<close>. The text of
  the message of a \<^verbatim>\<open>TypeError\<close> is the engine's; it is the parameter
  \<open>typeErrorMessage\<close>, a function of the document being validated. The result is the
  pair of the states \<^verbatim>\<open>validationResult\<close> and \<^verbatim>\<open>parsedConfig\<close>, \<open>None\<close> for a
  \<^verbatim>\<open>null\<close> result.
\<close>

definition onInput ::
  "(json \<Rightarrow> ValidationResult option) \<Rightarrow> (string \<Rightarrow> string + json) \<Rightarrow> (json \<Rightarrow> string) \<Rightarrow>
   string \<Rightarrow> ValidationResult option \<times> json" where
  "onInput validate JSON_parse typeErrorMessage jsonInput =
     (if trim jsonInput = [] then (None, JNull)
      else (case JSON_parse jsonInput of
              Inl message \<Rightarrow> (Some (parseErrorResult message), JNull)
            | Inr parsed \<Rightarrow>
                (case validate parsed of
                   Some validation \<Rightarrow> (Some validation, parsed)
                 | None \<Rightarrow> (Some (parseErrorResult (typeErrorMessage parsed)), JNull))))"

section \<open>Notions used to state the claims\<close>

subsection \<open>Reading a property of a value that is not \<^verbatim>\<open>null\<close>\<close>

text \<open>
  \<open>propOf x k\<close> is \<^verbatim>\<open>x.k\<close> for a value \<open>x\<close> other than \<^verbatim>\<open>null\<close>, where the read does
  not throw. It is used to state what the callbacks do; the model of the source does not
  use it.
\<close>

definition propOf :: "json \<Rightarrow> string \<Rightarrow> jsval" where
  "propOf x k = (case getProp (Val x) k of Some v \<Rightarrow> v | None \<Rightarrow> Undefined)"

definition menuItemMsg :: "nat \<Rightarrow> string \<Rightarrow> string" where
  "menuItemMsg menuIndex tabName = ''Menu item at index '' @ showNat menuIndex @ '' in tab '' @
     quoted tabName @ '' is missing 'item' property''"

subsection \<open>Stand-ins for the platform\<close>

text \<open>
  Stand-ins for the platform, used only to run the pipeline on a concrete text: a parser
  that rejects its text with a given message, a parser that returns a given document, a
  parser that knows the texts of a table and rejects every other text, and a message for
  a \<^verbatim>\<open>TypeError\<close>.
\<close>

definition rejects :: "string \<Rightarrow> string \<Rightarrow> string + json" where
  "rejects message text = Inl message"

definition typeErrorText :: "json \<Rightarrow> string" where
  "typeErrorText doc = ''config.favicon.match is not a function''"

definition parsesTo :: "json \<Rightarrow> string \<Rightarrow> string + json" where
  "parsesTo doc text = Inr doc"

definition parsesOnly :: "(string \<times> json) list \<Rightarrow> string \<Rightarrow> string + json" where
  "parsesOnly table text =
     (case map_of table text of Some doc \<Rightarrow> Inr doc | None \<Rightarrow> Inl ''Unexpected token'')"

text \<open>What \<^const>\<open>validateDocsJson\<close> returns on a value that is not an object.\<close>

definition nonObjectResult :: ValidationResult where
  "nonObjectResult =
     \<lparr>errors = [themeRequiredMsg, nameRequiredMsg, primaryRequiredMsg, navigationRequiredMsg],
      warnings = [schemaNudge, descriptionNudge, faviconNudge, logoNudge],
      isValid = False\<rparr>"

subsection \<open>Documents for the examples\<close>

text \<open>A document that passes (scenario 1 of the specification).\<close>

definition passingDoc :: "(string \<times> json) list" where
  "passingDoc = [(''theme'', JStr ''mint''), (''name'', JStr ''X''),
     (''colors'', JObj [(''primary'', JStr ''#0066cc'')]),
     (''navigation'', JObj [(''groups'',
        JArr [JObj [(''group'', JStr ''G''), (''pages'', JArr [JStr ''a''])]])])]"

text \<open>
  A document that fails several checks, two of them at the second entry of an array, and
  the result of the validator on it.
\<close>

definition mixedDoc :: json where
  "mixedDoc = JObj [(''theme'', JStr ''bogus''), (''colors'', JObj [(''primary'', JStr ''red'')]),
     (''navigation'', JObj [
        (''groups'', JArr [JObj [(''group'', JStr ''A''), (''pages'', JArr [JStr ''mcp/a''])],
                           JObj [(''pages'', JStr ''x'')]]),
        (''tabs'', JArr [JObj [(''tab'', JStr ''T''),
                               (''menu'', JArr [JObj [(''item'', JStr ''I'')], JObj []])],
                         JObj []])])]"

definition mixedResult :: ValidationResult where
  "mixedResult =
     \<lparr>errors = [''Invalid theme 'bogus'. Must be one of: mint, maple, palm, willow, linden, almond, aspen'',
                nameRequiredMsg, primaryInvalidMsg,
                ''Navigation group at index 1 is missing 'group' property'',
                ''Navigation group 'undefined' is missing 'pages' array'',
                ''Menu item at index 1 in tab 'T' is missing 'item' property'',
                ''Navigation tab at index 1 is missing 'tab' property''],
      warnings = [''Navigation item 'A' page 'mcp/a' uses reserved path. /mcp paths are reserved and may cause 404 errors'',
                  schemaNudge, descriptionNudge, faviconNudge, logoNudge],
      isValid = False\<rparr>"

text \<open>
  What the memos of \<^verbatim>\<open>settings-sandbox.jsx\<close> hold once the text \<^verbatim>\<open>{}\<close> has been
  entered.
\<close>

definition afterEmptyObject :: Memos where
  "afterEmptyObject =
     \<lparr>inputDep = ''{}'', parsedMemo = JObj [], resultMemo = validateDocsJson (JObj [])\<rparr>"

subsection \<open>Reserved paths by the words of the specification\<close>

definition hrefRef :: "jsval \<Rightarrow> (string \<times> string) list" where
  "hrefRef href =
     (case href of
        Val (JStr h) \<Rightarrow> if \<not> startsWith h ''http'' \<and> reservedPath h then [(''href'', h)] else []
      | _ \<Rightarrow> [])"

lemma jsize_propOf: "jsize (propOf x k) \<le> size x"
  by (cases x) (auto simp: propOf_def split: option.splits dest: map_of_size)

text \<open>
  Following the words of the specification (section 4.3): every string met is a page path,
  every string \<^verbatim>\<open>href\<close> of an object that does not start with \<^verbatim>\<open>http\<close> is a relative
  link; the traversal enters the children under \<^verbatim>\<open>pages\<close>, \<^verbatim>\<open>groups\<close> and \<^verbatim>\<open>menu\<close> of
  every object, depth first, children in array order. The result lists the occurrences
  whose segments include \<^verbatim>\<open>mcp\<close>, as pairs of the kind (\<^verbatim>\<open>page\<close> or \<^verbatim>\<open>href\<close>) and the
  path. It is written from the specification, to be compared with the scanner.
\<close>

function spec_reservedRefs :: "jsval \<Rightarrow> (string \<times> string) list"
  and spec_reservedRefs_list :: "json list \<Rightarrow> (string \<times> string) list"
  and spec_reservedRefs_node :: "json \<Rightarrow> (string \<times> string) list"
where
  "spec_reservedRefs items =
     (case items of Val (JArr xs) \<Rightarrow> spec_reservedRefs_list xs | _ \<Rightarrow> [])"
| "spec_reservedRefs_list [] = []"
| "spec_reservedRefs_list (x # xs) = spec_reservedRefs_node x @ spec_reservedRefs_list xs"
| "spec_reservedRefs_node x =
     (case x of
        JStr s \<Rightarrow> if reservedPath s then [(''page'', s)] else []
      | _ \<Rightarrow>
          if isObject (Val x)
          then spec_reservedRefs (propOf x ''pages'') @ spec_reservedRefs (propOf x ''groups'') @
               spec_reservedRefs (propOf x ''menu'') @ hrefRef (propOf x ''href'')
          else [])"
  by pat_completeness auto

termination
  by (relation "measure (\<lambda>x. case x of
        Inl items \<Rightarrow> 3 * jsize items
      | Inr (Inl xs) \<Rightarrow> 3 * size_list size xs + 2
      | Inr (Inr item) \<Rightarrow> 3 * size item + 1)")
     (auto simp: le_imp_less_Suc jsize_propOf intro: le_less_trans[OF mult_le_mono2[OF jsize_propOf]])

declare spec_reservedRefs.simps [simp del]

declare spec_reservedRefs_node.simps [simp del]

text \<open>A warning refers to an occurrence when it ends with its kind, its quoted path and the fixed text.\<close>

definition refersTo :: "string \<Rightarrow> string \<times> string \<Rightarrow> bool" where
  "refersTo warning ref =
     endsWith warning ('' '' @ fst ref @ '' '' @ quoted (snd ref) @ reservedMsg)"

text \<open>
  No object anywhere in the value has a property of its own called \<^verbatim>\<open>toString\<close>: then
  every part of it converts to a string.
\<close>

fun printable :: "json \<Rightarrow> bool"
  and printableList :: "json list \<Rightarrow> bool"
  and printableFields :: "(string \<times> json) list \<Rightarrow> bool" where
  "printable (JArr xs) = printableList xs"
| "printable (JObj kvs) = (''toString'' \<notin> set (map fst kvs) \<and> printableFields kvs)"
| "printable v = True"
| "printableList [] = True"
| "printableList (x # xs) = (printable x \<and> printableList xs)"
| "printableFields [] = True"
| "printableFields (kv # kvs) = (printable (snd kv) \<and> printableFields kvs)"

fun printableV :: "jsval \<Rightarrow> bool" where
  "printableV (Val j) = printable j"
| "printableV v = True"

text \<open>A small tree, for the examples.\<close>

definition guideTree :: "json list" where
  "guideTree = [JObj [(''group'', JStr ''G''), (''pages'', JArr [JStr ''guides/mcp/setup'', JStr ''intro''])],
                JObj [(''anchor'', JStr ''A''), (''href'', JStr ''http://host/mcp/setup'')],
                JObj [(''anchor'', JStr ''B''), (''href'', JStr ''docs/mcp'')]]"

subsection \<open>The result read off the document\<close>

text \<open>
  What follows lists the errors and the warnings of a document rule by rule, in the
  order in which the source runs the checks, and entry by entry with increasing index
  where a rule runs over an array. These are plain functions of the document, each
  returning its own result, merged by concatenation (the form that section 9 of the
  specification asks for in place of the arrays passed by reference): no array is passed
  along and nothing is pushed. They are written from the rules of section 4.2 and the
  messages of the source, to be compared with the validator; where the validator throws
  they say nothing about it.

  \<open>propV v k\<close> is \<^verbatim>\<open>v?.k\<close>, \<open>shown v\<close> is \<^verbatim>\<open>`${v}`\<close>, and \<open>matches v re\<close> holds
  for a string that the expression matches.
\<close>

definition propV :: "jsval \<Rightarrow> string \<Rightarrow> jsval" where
  "propV v k = (case getProp v k of Some x \<Rightarrow> x | None \<Rightarrow> Undefined)"

definition shown :: "jsval \<Rightarrow> string" where
  "shown v = (case toStr v of Some s \<Rightarrow> s | None \<Rightarrow> [])"

definition matches :: "jsval \<Rightarrow> (string \<Rightarrow> bool) \<Rightarrow> bool" where
  "matches v re = (case match v re of Some b \<Rightarrow> b | None \<Rightarrow> False)"

text \<open>One report per entry of an array, entries taken by increasing index.\<close>

definition perEntry :: "(nat \<Rightarrow> json \<Rightarrow> string list) \<Rightarrow> jsval \<Rightarrow> string list" where
  "perEntry report v =
     (case v of
        Val (JArr xs) \<Rightarrow> concat (map (\<lambda>(index, x). report index x) (enumerate 0 xs))
      | _ \<Rightarrow> [])"

text \<open>Required fields: the theme, then the name.\<close>

definition spec_required :: "json \<Rightarrow> string list" where
  "spec_required config =
     (if \<not> truthy (propOf config ''theme'') then [themeRequiredMsg]
      else if \<not> arrayIncludes validThemes (propOf config ''theme'')
        then [invalidThemeMsg (shown (propOf config ''theme''))]
      else []) @
     (if \<not> truthy (propOf config ''name'') then [nameRequiredMsg] else [])"

text \<open>Colours: the primary colour, then the light and the dark one.\<close>

definition spec_mode :: "jsval \<Rightarrow> string \<Rightarrow> string list" where
  "spec_mode colors mode =
     (if truthy (propV colors mode) \<and> \<not> matches (propV colors mode) hexColorRe
      then [[CHR 0x27] @ ''colors.'' @ mode @ ''' must be a valid hex color code (e.g., #ff0000)'']
      else [])"

definition spec_colors :: "json \<Rightarrow> string list" where
  "spec_colors config =
     (let colors = propOf config ''colors''; primary = propV colors ''primary'' in
        (if \<not> truthy colors \<or> \<not> truthy primary then [primaryRequiredMsg]
         else if \<not> matches primary hexColorRe then [primaryInvalidMsg]
         else []) @
        (if truthy colors then spec_mode colors ''light'' @ spec_mode colors ''dark'' else []))"

text \<open>The errors of one entry of \<^verbatim>\<open>navigation.groups\<close>, \<^verbatim>\<open>tabs\<close>, \<^verbatim>\<open>global.anchors\<close>.\<close>

definition spec_key :: "string \<Rightarrow> string \<Rightarrow> nat \<Rightarrow> json \<Rightarrow> string list" where
  "spec_key label key index x =
     (if truthy (propOf x key) then [] else [missingMsg label index key])"

definition spec_group :: "nat \<Rightarrow> json \<Rightarrow> string list" where
  "spec_group index grp =
     spec_key ''Navigation group'' ''group'' index grp @
     (if truthy (propOf grp ''pages'') \<and> isArray (propOf grp ''pages'') then []
      else [''Navigation group '' @ quoted (shown (propOf grp ''group'')) @
            '' is missing 'pages' array''])"

definition spec_menuItem :: "json \<Rightarrow> nat \<Rightarrow> json \<Rightarrow> string list" where
  "spec_menuItem tab menuIndex menuItem =
     (if truthy (propOf menuItem ''item'') then []
      else [menuItemMsg menuIndex (shown (propOf tab ''tab''))])"

definition spec_tab :: "nat \<Rightarrow> json \<Rightarrow> string list" where
  "spec_tab index tab =
     spec_key ''Navigation tab'' ''tab'' index tab @
     perEntry (spec_menuItem tab) (propOf tab ''menu'')"

definition spec_globalAnchor :: "nat \<Rightarrow> json \<Rightarrow> string list" where
  "spec_globalAnchor index anchor =
     spec_key ''Global anchor'' ''anchor'' index anchor @
     (if \<not> truthy (propOf anchor ''href'')
      then [''Global anchor '' @ quoted (shown (propOf anchor ''anchor'')) @
            '' is missing 'href' property'']
      else if \<not> matches (propOf anchor ''href'') (\<lambda>s. startsWith s ''http'')
      then [''Global anchor '' @ quoted (shown (propOf anchor ''anchor'')) @
            '' href must be an external URL starting with http/https'']
      else [])"

text \<open>
  The errors of the navigation: groups, tabs, anchors, dropdowns, versions, languages,
  global anchors.
\<close>

definition spec_navigation_errors :: "json \<Rightarrow> string list" where
  "spec_navigation_errors config =
     (let nav = propOf config ''navigation'' in
      if \<not> truthy nav then [navigationRequiredMsg]
      else perEntry spec_group (propV nav ''groups'') @
           perEntry spec_tab (propV nav ''tabs'') @
           perEntry (spec_key ''Navigation anchor'' ''anchor'') (propV nav ''anchors'') @
           perEntry (spec_key ''Navigation dropdown'' ''dropdown'') (propV nav ''dropdowns'') @
           perEntry (spec_key ''Navigation version'' ''version'') (propV nav ''versions'') @
           perEntry (spec_key ''Navigation language'' ''language'') (propV nav ''languages'') @
           perEntry spec_globalAnchor (propV (propV nav ''global'') ''anchors''))"

definition spec_errors :: "json \<Rightarrow> string list" where
  "spec_errors config = spec_required config @ spec_colors config @ spec_navigation_errors config"

text \<open>
  The warnings of the path scanner on a subtree, under a context: those of the elements
  of an array in array order; for an object, those under \<^verbatim>\<open>pages\<close>, \<^verbatim>\<open>groups\<close> and
  \<^verbatim>\<open>menu\<close>, then the one on \<^verbatim>\<open>href\<close>. The context handed down is the one received
  or, when that is empty, the name of the object.
\<close>

definition spec_pagesContext :: "json \<Rightarrow> string \<Rightarrow> string" where
  "spec_pagesContext item context =
     (if context \<noteq> [] then context
      else ''Navigation item '' @
           quoted (shown (orElse (propOf item ''group'') (orElse (propOf item ''item'')
             (orElse (propOf item ''tab'') (orElse (propOf item ''anchor'')
               (propOf item ''dropdown'')))))))"

definition spec_menuContext :: "json \<Rightarrow> string \<Rightarrow> string" where
  "spec_menuContext item context =
     (if context \<noteq> [] then context else ''Tab '' @ quoted (shown (propOf item ''tab'')))"

definition spec_href :: "jsval \<Rightarrow> string \<Rightarrow> string list" where
  "spec_href href context =
     (case href of
        Val (JStr h) \<Rightarrow>
          if h \<noteq> [] \<and> \<not> startsWith h ''http'' \<and> reservedPath h
          then [context @ '' href '' @ quoted h @ reservedMsg]
          else []
      | _ \<Rightarrow> [])"

function spec_scan :: "jsval \<Rightarrow> string \<Rightarrow> string list"
  and spec_scan_list :: "json list \<Rightarrow> string \<Rightarrow> string list"
  and spec_scan_node :: "json \<Rightarrow> string \<Rightarrow> string list"
where
  "spec_scan items context =
     (case items of Val (JArr xs) \<Rightarrow> spec_scan_list xs context | _ \<Rightarrow> [])"
| "spec_scan_list [] context = []"
| "spec_scan_list (x # xs) context = spec_scan_node x context @ spec_scan_list xs context"
| "spec_scan_node x context =
     (case x of
        JStr s \<Rightarrow> if reservedPath s then [context @ '' page '' @ quoted s @ reservedMsg] else []
      | _ \<Rightarrow>
          if isObject (Val x)
          then spec_scan (propOf x ''pages'') (spec_pagesContext x context) @
               spec_scan (propOf x ''groups'') context @
               spec_scan (propOf x ''menu'') (spec_menuContext x context) @
               spec_href (propOf x ''href'') context
          else [])"
  by pat_completeness auto

termination
  by (relation "measure (\<lambda>x. case x of
        Inl (items, _) \<Rightarrow> 3 * jsize items
      | Inr (Inl (xs, _)) \<Rightarrow> 3 * size_list size xs + 2
      | Inr (Inr (item, _)) \<Rightarrow> 3 * size item + 1)")
     (auto simp: le_imp_less_Suc jsize_propOf intro: le_less_trans[OF mult_le_mono2[OF jsize_propOf]])

declare spec_scan.simps [simp del]

declare spec_scan_node.simps [simp del]

text \<open>The scans under one entry of \<^verbatim>\<open>navigation.versions\<close> or \<^verbatim>\<open>languages\<close>.\<close>

definition spec_scanAll :: "string \<Rightarrow> jsval \<Rightarrow> json \<Rightarrow> string list" where
  "spec_scanAll label name x =
     concat (map (\<lambda>key. spec_scan (propOf x key) (label @ '' '' @ quoted (shown name)))
                 [''pages'', ''groups'', ''tabs'', ''anchors'', ''dropdowns''])"

definition spec_version :: "nat \<Rightarrow> json \<Rightarrow> string list" where
  "spec_version index version = spec_scanAll ''Version'' (propOf version ''version'') version"

definition spec_language :: "nat \<Rightarrow> json \<Rightarrow> string list" where
  "spec_language index language =
     (let l = propOf language ''language'' in
        (if truthy l \<and> \<not> arrayIncludes validLanguages l
         then [''Language code '' @ quoted (shown l) @
               '' may not be supported. Supported codes: '' @ joinWith '', '' validLanguages]
         else []) @
        spec_scanAll ''Language'' l language)"

text \<open>
  The warnings of the navigation: the scans of pages, groups, tabs, anchors and
  dropdowns, then versions and languages entry by entry, then the scan of the global
  anchors.
\<close>

definition spec_navigation_warnings :: "json \<Rightarrow> string list" where
  "spec_navigation_warnings config =
     (let nav = propOf config ''navigation'' in
      if \<not> truthy nav then []
      else spec_scan (propV nav ''pages'') ''Root navigation'' @
           spec_scan (propV nav ''groups'') [] @
           spec_scan (propV nav ''tabs'') [] @
           spec_scan (propV nav ''anchors'') [] @
           spec_scan (propV nav ''dropdowns'') [] @
           perEntry spec_version (propV nav ''versions'') @
           perEntry spec_language (propV nav ''languages'') @
           spec_scan (propV (propV nav ''global'') ''anchors'') ''Global anchors'')"

text \<open>Assets: the logo, then the favicon.\<close>

definition spec_assets :: "json \<Rightarrow> string list" where
  "spec_assets config =
     (let logo = propOf config ''logo''; href = propV logo ''href'' in
        if truthy logo \<and> isObject logo \<and> truthy href \<and> \<not> matches href httpUrlRe
        then [''Logo 'href' should be a complete URL starting with http:// or https://'']
        else []) @
     (let favicon = propOf config ''favicon'' in
        if truthy favicon \<and> \<not> matches favicon faviconRe
        then [''Favicon should typically be an .ico, .png, or .svg file'']
        else [])"

text \<open>Integrations: Google Analytics 4, then Google Tag Manager.\<close>

definition spec_id :: "jsval \<Rightarrow> string \<Rightarrow> string \<Rightarrow> (string \<Rightarrow> bool) \<Rightarrow> string \<Rightarrow> string list" where
  "spec_id integrations svc field re msg =
     (let v = propV (propV integrations svc) field in
        if truthy (propV integrations svc) \<and> truthy v \<and> \<not> matches v re then [msg] else [])"

definition spec_integrations :: "json \<Rightarrow> string list" where
  "spec_integrations config =
     (let integrations = propOf config ''integrations'' in
      if \<not> truthy integrations then []
      else spec_id integrations ''ga4'' ''measurementId'' (idRe ''G-'')
             (''Google Analytics 4 measurement ID should follow format '' @ quoted ''G-XXXXXXXXX'') @
           spec_id integrations ''gtm'' ''containerId'' (idRe ''GTM-'')
             (''Google Tag Manager container ID should follow format '' @ quoted ''GTM-XXXXXXX''))"

text \<open>Best practices: schema, description, favicon, logo.\<close>

definition spec_nudge :: "json \<Rightarrow> string \<Rightarrow> string \<Rightarrow> string list" where
  "spec_nudge config key msg = (if truthy (propOf config key) then [] else [msg])"

definition spec_bestPractices :: "json \<Rightarrow> string list" where
  "spec_bestPractices config =
     spec_nudge config ''$schema'' schemaNudge @
     spec_nudge config ''description'' descriptionNudge @
     spec_nudge config ''favicon'' faviconNudge @
     spec_nudge config ''logo'' logoNudge"

definition spec_warnings :: "json \<Rightarrow> string list" where
  "spec_warnings config =
     spec_navigation_warnings config @ spec_assets config @ spec_integrations config @
     spec_bestPractices config"

definition spec_result :: "json \<Rightarrow> ValidationResult" where
  "spec_result config =
     \<lparr>errors = spec_errors config, warnings = spec_warnings config,
      isValid = (spec_errors config = [])\<rparr>"

subsection \<open>Arrays that only grow\<close>

text \<open>
  A function of the array pushed to is append-only when, run on an array \<open>w\<close>, it returns
  \<open>w\<close> followed by what it returns on the empty array (and throws on \<open>w\<close> exactly when it
  throws on the empty array). The second notion is the same for the pair of \<^verbatim>\<open>errors\<close>
  and \<^verbatim>\<open>warnings\<close>.
\<close>

definition appendOnly :: "('a list \<Rightarrow> 'a list option) \<Rightarrow> bool" where
  "appendOnly f = (\<forall>w. f w = map_option ((@) w) (f []))"

definition app2 :: "'a list \<times> 'b list \<Rightarrow> 'a list \<times> 'b list \<Rightarrow> 'a list \<times> 'b list" where
  "app2 s t = (fst s @ fst t, snd s @ snd t)"

definition appendOnly2 :: "('a list \<times> 'b list \<Rightarrow> ('a list \<times> 'b list) option) \<Rightarrow> bool" where
  "appendOnly2 f = (\<forall>s. f s = map_option (app2 s) (f ([], [])))"

section \<open>The arrays only grow\<close>

text \<open>
  Every helper pushes to the arrays it is given and never reads them: run on an array
  \<open>w\<close>, it returns \<open>w\<close> followed by what it returns on the empty array, and it throws
  on \<open>w\<close> exactly when it throws on the empty array.
\<close>

lemma appendOnlyD: "appendOnly f \<Longrightarrow> f w = map_option ((@) w) (f [])"
  unfolding appendOnly_def by (rule spec)

lemma appendOnlyI: "(\<And>w. f w = map_option ((@) w) (f [])) \<Longrightarrow> appendOnly f"
  unfolding appendOnly_def by (rule allI)

lemma ao_Some: "appendOnly Some"
  by (rule appendOnlyI) simp

lemma ao_None: "appendOnly (\<lambda>w. None)"
  by (rule appendOnlyI) simp

lemma ao_push: "appendOnly (\<lambda>w. Some (if b then w @ ms else w))"
  by (rule appendOnlyI) simp

lemma ao_if:
  assumes "appendOnly f" "appendOnly g"
  shows "appendOnly (\<lambda>w. if b then f w else g w)"
proof (rule appendOnlyI)
  fix w
  show "(if b then f w else g w) = map_option ((@) w) (if b then f [] else g [])"
    using appendOnlyD[OF assms(1), of w] appendOnlyD[OF assms(2), of w] by (cases b) simp_all
qed

lemma ao_bind_val:
  assumes "\<And>x. m = Some x \<Longrightarrow> appendOnly (\<lambda>w. g x w)"
  shows "appendOnly (\<lambda>w. m \<bind> (\<lambda>x. g x w))"
proof (cases m)
  case None
  then show ?thesis by (simp add: ao_None)
next
  case (Some x)
  then show ?thesis using assms[OF Some] by simp
qed

lemma ao_bind_st: 
  assumes "appendOnly f" "appendOnly g" shows "appendOnly (\<lambda>w. f w \<bind> g)"
proof (rule appendOnlyI)
  fix w
  show "f w \<bind> g = map_option ((@) w) (f [] \<bind> g)"
  proof (cases "f []")
    case None
    then show ?thesis using appendOnlyD[OF assms(1), of w] by simp
  next
    case (Some a)
    then have fw: "f w = Some (w @ a)" using appendOnlyD[OF assms(1), of w] by simp
    have g1: "g (w @ a) = map_option ((@) (w @ a)) (g [])" using appendOnlyD[OF assms(2)] .
    have g2: "g a = map_option ((@) a) (g [])" using appendOnlyD[OF assms(2)] .
    show ?thesis
      by (cases "g []") (simp_all add: fw g1 g2 Some)
  qed
qed

lemma ao_forEachFrom:
  assumes "\<And>x i. x \<in> set xs \<Longrightarrow> appendOnly (f x i)"
  shows "appendOnly (forEachFrom f xs i)"
  using assms
proof (induction xs arbitrary: i)
  case Nil
  have "forEachFrom f [] i = Some" by (rule ext) simp
  then show ?case by (simp add: ao_Some)
next
  case (Cons x xs)
  have "appendOnly (\<lambda>w. f x i w \<bind> forEachFrom f xs (Suc i))"
    by (rule ao_bind_st) (simp_all add: Cons)
  moreover have "forEachFrom f (x # xs) i = (\<lambda>w. f x i w \<bind> forEachFrom f xs (Suc i))"
    by (rule ext) simp
  ultimately show ?case by simp
qed

lemma ao_forEach:
  assumes "\<And>x i. appendOnly (f x i)"
  shows "appendOnly (forEach v f)"
proof (cases "isArray v")
  case True
  then obtain xs where v: "v = Val (JArr xs)" by (cases v rule: isArray.cases) auto
  have "forEach v f = forEachFrom f xs 0" unfolding v by (rule ext) simp
  then show ?thesis using ao_forEachFrom[of xs f 0] assms by simp
next
  case False
  then have "forEach v f = (\<lambda>w. None)" by (cases v rule: isArray.cases) auto
  then show ?thesis by (simp add: ao_None)
qed

lemma ao_checkHref: "appendOnly (\<lambda>w. Some (checkHref href w c))"
  by (rule appendOnlyI) (simp add: checkHref_def split: jsval.splits json.splits)

lemma ao_callback:
  assumes IH: "\<And>v c. jsize v \<le> size item \<Longrightarrow> appendOnly (\<lambda>w. checkNavigationPaths v w c)"
  shows "appendOnly (\<lambda>w. checkNavigationPaths_callback item w c)"
proof -
  let ?body = "\<lambda>w. do {
            pages \<leftarrow> getProp (Val item) ''pages'';
            w1 \<leftarrow> (if truthy pages then do {
                     c \<leftarrow> pagesContext item c;
                     checkNavigationPaths pages w c
                   } else Some w);
            groups \<leftarrow> getProp (Val item) ''groups'';
            w2 \<leftarrow> (if truthy groups then checkNavigationPaths groups w1 c
                   else Some w1);
            menu \<leftarrow> getProp (Val item) ''menu'';
            w3 \<leftarrow> (if truthy menu then do {
                     c \<leftarrow> menuContext item c;
                     checkNavigationPaths menu w2 c
                   } else Some w2);
            href \<leftarrow> getProp (Val item) ''href'';
            Some (checkHref href w3 c)
          }"
  have obj: "appendOnly ?body"
    apply (rule ao_bind_val)
    apply (rule ao_bind_st)
     apply (rule ao_if)
      apply (rule ao_bind_val)
      apply (rule IH, erule getProp_size)
     apply (rule ao_Some)
    apply (rule ao_bind_val)
    apply (rule ao_bind_st)
     apply (rule ao_if)
      apply (rule IH, erule getProp_size)
     apply (rule ao_Some)
    apply (rule ao_bind_val)
    apply (rule ao_bind_st)
     apply (rule ao_if)
      apply (rule ao_bind_val)
      apply (rule IH, erule getProp_size)
     apply (rule ao_Some)
    apply (rule ao_bind_val)
    apply (rule ao_checkHref)
    done
  have eq: "checkNavigationPaths_callback item w c =
      (case item of
         JStr s \<Rightarrow> Some (if reservedPath s then w @ [c @ '' page '' @ quoted s @ reservedMsg] else w)
       | _ \<Rightarrow> if isObject (Val item) then ?body w else Some w)" for w
    by (simp add: checkNavigationPaths_callback.simps del: getProp.simps split: json.splits)
  show ?thesis
  proof (rule appendOnlyI)
    fix w
    show "checkNavigationPaths_callback item w c =
          map_option ((@) w) (checkNavigationPaths_callback item [] c)"
      unfolding eq using appendOnlyD[OF obj, of w]
      by (cases item) (simp_all del: getProp.simps)
  qed
qed

lemma ao_cnp_forEach:
  assumes "\<And>x v c. x \<in> set xs \<Longrightarrow> jsize v \<le> size x \<Longrightarrow> appendOnly (\<lambda>w. checkNavigationPaths v w c)"
  shows "appendOnly (\<lambda>w. checkNavigationPaths_forEach xs w c)"
  using assms
proof (induction xs)
  case Nil
  show ?case by (simp add: ao_Some)
next
  case (Cons x xs)
  have "appendOnly (\<lambda>w. checkNavigationPaths_callback x w c \<bind> (\<lambda>w. checkNavigationPaths_forEach xs w c))"
    by (rule ao_bind_st) (auto intro!: ao_callback Cons)
  then show ?case by simp
qed

lemma size_mem: "x \<in> set xs \<Longrightarrow> size x < Suc (size_list size xs)"
  by (induction xs) auto

lemma ao_checkNavigationPaths: "appendOnly (\<lambda>w. checkNavigationPaths items w c)"
proof (induction "jsize items" arbitrary: items c rule: less_induct)
  case less
  show ?case
  proof (cases "isArray items")
    case True
    then obtain xs where v: "items = Val (JArr xs)" by (cases items rule: isArray.cases) auto
    have "appendOnly (\<lambda>w. checkNavigationPaths_forEach xs w c)"
    proof (rule ao_cnp_forEach)
      fix x v c assume "x \<in> set xs" "jsize v \<le> size x"
      then have "jsize v < jsize items" using size_mem[of x xs] by (simp add: v)
      then show "appendOnly (\<lambda>w. checkNavigationPaths v w c)" by (rule less)
    qed
    then show ?thesis by (simp add: v checkNavigationPaths.simps)
  next
    case False
    then have "\<And>w. checkNavigationPaths items w c = Some w"
      by (cases items rule: isArray.cases) (auto simp: checkNavigationPaths.simps)
    then show ?thesis by (simp add: ao_Some)
  qed
qed

lemma ao_push1: "appendOnly (\<lambda>w. Some (w @ ms))"
  by (rule appendOnlyI) simp

lemmas ao_intros = ao_bind_val ao_bind_st ao_if ao_push ao_push1 ao_Some ao_None

lemma ao_requireKey: "appendOnly (requireKey label key x index)"
  unfolding requireKey_def[abs_def] by (intro ao_intros)

lemma ao_groupCallback: "appendOnly (groupCallback grp index)"
  unfolding groupCallback_def[abs_def] by (intro ao_intros ao_requireKey)

lemma ao_menuItemCallback: "appendOnly (menuItemCallback tab menuItem menuIndex)"
  unfolding menuItemCallback_def[abs_def] by (intro ao_intros)

lemma ao_tabCallback: "appendOnly (tabCallback tab index)"
  unfolding tabCallback_def[abs_def] by (intro ao_intros ao_requireKey ao_forEach ao_menuItemCallback)

lemma ao_globalAnchorCallback: "appendOnly (globalAnchorCallback anchor index)"
  unfolding globalAnchorCallback_def[abs_def] by (intro ao_intros ao_requireKey)

lemma ao_tabCallback_old: "appendOnly (tabCallback_old tab index)"
  unfolding tabCallback_old_def[abs_def] by (intro ao_intros ao_requireKey)

lemma ao_pageCallback_part000: "appendOnly (pageCallback_part000 page index)"
  by (rule appendOnlyI) (simp add: pageCallback_part000_def split: json.splits)

lemma ao_pageCallback_part001: "appendOnly (pageCallback_part001 page index)"
  by (rule appendOnlyI) (simp add: pageCallback_part001_def split: json.splits)

lemma ao_scanUnder: "appendOnly (scanUnder label name x key)"
  unfolding scanUnder_def[abs_def] by (intro ao_intros ao_checkNavigationPaths)

lemma ao_scanAll: "appendOnly (scanAll label name x)"
  unfolding scanAll_def[abs_def] by (intro ao_intros ao_scanUnder)

lemma ao_validateRequiredFields: "appendOnly (validateRequiredFields config)"
  unfolding validateRequiredFields_def[abs_def] by (intro ao_intros)

lemma ao_checkPrimary: "appendOnly (checkPrimary config)"
  unfolding checkPrimary_def[abs_def] by (intro ao_intros)

lemma ao_checkMode: "appendOnly (checkMode colors mode)"
  unfolding checkMode_def[abs_def] by (intro ao_intros)

lemma ao_checkOptionalColors: "appendOnly (checkOptionalColors config)"
  unfolding checkOptionalColors_def[abs_def] by (intro ao_intros ao_checkMode)

lemma ao_validateColors: "appendOnly (validateColors config)"
  unfolding validateColors_def[abs_def] by (intro ao_intros ao_checkPrimary ao_checkOptionalColors)

lemma ao_checkLogo: "appendOnly (checkLogo config)"
  unfolding checkLogo_def[abs_def] by (intro ao_intros)

lemma ao_checkFavicon: "appendOnly (checkFavicon config)"
  unfolding checkFavicon_def[abs_def] by (intro ao_intros)

lemma ao_validateAssets: "appendOnly (validateAssets config)"
  unfolding validateAssets_def[abs_def] by (intro ao_intros ao_checkLogo ao_checkFavicon)

lemma ao_checkId: "appendOnly (checkId integrations svc field re msg)"
  unfolding checkId_def[abs_def] by (intro ao_intros)

lemma ao_validateIntegrations: "appendOnly (validateIntegrations config)"
  unfolding validateIntegrations_def[abs_def] by (intro ao_intros ao_checkId)

lemma ao_nudge: "appendOnly (nudge config key msg)"
  unfolding nudge_def[abs_def] by (intro ao_intros)

lemma ao_validateBestPractices: "appendOnly (validateBestPractices config)"
  unfolding validateBestPractices_def[abs_def] by (intro ao_intros ao_nudge)

lemma ao_checkVariant: "appendOnly (checkVariant asset key mode what)"
  unfolding checkVariant_def[abs_def] by (intro ao_intros)

lemma ao_checkVariants: "appendOnly (checkVariants config key what)"
  unfolding checkVariants_def[abs_def] by (intro ao_intros ao_checkVariant)

lemma appendOnly2D: "appendOnly2 f \<Longrightarrow> f s = map_option (app2 s) (f ([], []))"
  unfolding appendOnly2_def by (rule spec)

lemma appendOnly2I: "(\<And>s. f s = map_option (app2 s) (f ([], []))) \<Longrightarrow> appendOnly2 f"
  unfolding appendOnly2_def by (rule allI)

lemma app2_simps [simp]:
  "app2 ([], []) t = t" "app2 s ([], []) = s" "app2 (app2 s t) u = app2 s (app2 t u)"
  "app2 (a, b) (c, d) = (a @ c, b @ d)"
  by (simp_all add: app2_def)

lemma ao2_Some: "appendOnly2 Some"
  by (rule appendOnly2I) simp

lemma ao2_None: "appendOnly2 (\<lambda>s. None)"
  by (rule appendOnly2I) simp

lemma ao2_if:
  assumes "appendOnly2 f" "appendOnly2 g"
  shows "appendOnly2 (\<lambda>s. if b then f s else g s)"
proof (rule appendOnly2I)
  fix s
  show "(if b then f s else g s) = map_option (app2 s) (if b then f ([], []) else g ([], []))"
    using appendOnly2D[OF assms(1), of s] appendOnly2D[OF assms(2), of s] by (cases b) simp_all
qed

lemma ao2_bind_val:
  assumes "\<And>x. m = Some x \<Longrightarrow> appendOnly2 (\<lambda>s. g x s)"
  shows "appendOnly2 (\<lambda>s. m \<bind> (\<lambda>x. g x s))"
proof (cases m)
  case None
  then show ?thesis by (simp add: ao2_None)
next
  case (Some x)
  then show ?thesis using assms[OF Some] by simp
qed

lemma ao2_bind_st:
  assumes "appendOnly2 f" "appendOnly2 g" shows "appendOnly2 (\<lambda>s. f s \<bind> g)"
proof (rule appendOnly2I)
  fix s
  show "f s \<bind> g = map_option (app2 s) (f ([], []) \<bind> g)"
  proof (cases "f ([], [])")
    case None
    then show ?thesis using appendOnly2D[OF assms(1), of s] by simp
  next
    case (Some a)
    then have fw: "f s = Some (app2 s a)" using appendOnly2D[OF assms(1), of s] by simp
    have g1: "g (app2 s a) = map_option (app2 (app2 s a)) (g ([], []))"
      using appendOnly2D[OF assms(2)] .
    have g2: "g a = map_option (app2 a) (g ([], []))" using appendOnly2D[OF assms(2)] .
    show ?thesis
      by (cases "g ([], [])") (simp_all add: fw g1 g2 Some)
  qed
qed

lemma ao2_forEachFrom:
  assumes "\<And>x i. x \<in> set xs \<Longrightarrow> appendOnly2 (f x i)"
  shows "appendOnly2 (forEachFrom f xs i)"
  using assms
proof (induction xs arbitrary: i)
  case Nil
  have "forEachFrom f [] i = Some" by (rule ext) simp
  then show ?case by (simp add: ao2_Some)
next
  case (Cons x xs)
  have "appendOnly2 (\<lambda>w. f x i w \<bind> forEachFrom f xs (Suc i))"
    by (rule ao2_bind_st) (simp_all add: Cons)
  moreover have "forEachFrom f (x # xs) i = (\<lambda>w. f x i w \<bind> forEachFrom f xs (Suc i))"
    by (rule ext) simp
  ultimately show ?case by simp
qed

lemma ao2_forEach:
  assumes "\<And>x i. appendOnly2 (f x i)"
  shows "appendOnly2 (forEach v f)"
proof (cases "isArray v")
  case True
  then obtain xs where v: "v = Val (JArr xs)" by (cases v rule: isArray.cases) auto
  have "forEach v f = forEachFrom f xs 0" unfolding v by (rule ext) simp
  then show ?thesis using ao2_forEachFrom[of xs f 0] assms by simp
next
  case False
  then have "forEach v f = (\<lambda>w. None)" by (cases v rule: isArray.cases) auto
  then show ?thesis by (simp add: ao2_None)
qed

text \<open>A helper on the errors and a helper on the warnings, run one after the other.\<close>

lemma ao2_both:
  assumes "appendOnly f" "appendOnly g"
  shows "appendOnly2 (\<lambda>s. f (fst s) \<bind> (\<lambda>e. g (snd s) \<bind> (\<lambda>w. Some (e, w))))"
proof (rule appendOnly2I)
  fix s
  show "f (fst s) \<bind> (\<lambda>e. g (snd s) \<bind> (\<lambda>w. Some (e, w))) =
        map_option (app2 s) (f (fst ([], [])) \<bind> (\<lambda>e. g (snd ([], [])) \<bind> (\<lambda>w. Some (e, w))))"
    using appendOnlyD[OF assms(1), of "fst s"] appendOnlyD[OF assms(2), of "snd s"]
    by (cases "f []"; cases "g []"; cases s) simp_all
qed

lemma ao2_fst:
  assumes "appendOnly f"
  shows "appendOnly2 (\<lambda>s. f (fst s) \<bind> (\<lambda>e. Some (e, snd s)))"
proof (rule appendOnly2I)
  fix s
  show "f (fst s) \<bind> (\<lambda>e. Some (e, snd s)) =
        map_option (app2 s) (f (fst ([], [])) \<bind> (\<lambda>e. Some (e, snd ([], []))))"
    using appendOnlyD[OF assms(1), of "fst s"] by (cases "f []"; cases s) simp_all
qed

lemma ao2_snd:
  assumes "appendOnly g"
  shows "appendOnly2 (\<lambda>s. g (snd s) \<bind> (\<lambda>w. Some (fst s, w)))"
proof (rule appendOnly2I)
  fix s
  show "g (snd s) \<bind> (\<lambda>w. Some (fst s, w)) =
        map_option (app2 s) (g (snd ([], [])) \<bind> (\<lambda>w. Some (fst ([], []), w)))"
    using appendOnlyD[OF assms(1), of "snd s"] by (cases "g []"; cases s) simp_all
qed

lemma ao2_push_fst: "appendOnly2 (\<lambda>s. Some (fst s @ ms, snd s))"
  by (rule appendOnly2I) (simp add: app2_def)

lemma ao2_push_snd: "appendOnly2 (\<lambda>s. Some (fst s, snd s @ ms))"
  by (rule appendOnly2I) (simp add: app2_def)

lemmas ao2_intros = ao2_bind_val ao2_bind_st ao2_if ao2_both ao2_fst ao2_snd ao2_push_fst
  ao2_push_snd ao2_Some ao2_None

lemma ao2_navPages: "appendOnly2 (navPages nav)"
  unfolding navPages_def[abs_def] by (intro ao2_intros ao_checkNavigationPaths)

lemma ao2_navSection:
  assumes "\<And>x i. appendOnly (callback x i)"
  shows "appendOnly2 (navSection key callback nav)"
  unfolding navSection_def[abs_def]
  by (intro ao2_intros ao_checkNavigationPaths ao_forEach assms)

lemma ao2_navScoped:
  assumes "\<And>x i. appendOnly2 (callback x i)"
  shows "appendOnly2 (navScoped key callback nav)"
  unfolding navScoped_def[abs_def] by (intro ao2_intros ao2_forEach assms)

lemma ao2_navGlobal: "appendOnly2 (navGlobal nav)"
  unfolding navGlobal_def[abs_def]
  by (intro ao2_intros ao_checkNavigationPaths ao_forEach ao_globalAnchorCallback)

lemma ao2_versionCallback: "appendOnly2 (versionCallback version index)"
proof (cases "getProp (Val version) ''version''")
  case None
  then have "versionCallback version index = (\<lambda>s. None)"
    by (intro ext) (simp add: versionCallback_def split: bind_splits)
  then show ?thesis by (simp add: ao2_None)
next
  case (Some v)
  have "versionCallback version index =
        (\<lambda>s. requireKey ''Navigation version'' ''version'' version index (fst s) \<bind>
             (\<lambda>e. scanAll ''Version'' v version (snd s) \<bind> (\<lambda>w. Some (e, w))))"
    by (intro ext) (simp add: versionCallback_def Some)
  then show ?thesis by (simp add: ao2_both ao_requireKey ao_scanAll)
qed

lemma ao2_languageCallback: "appendOnly2 (languageCallback language index)"
  unfolding languageCallback_def[abs_def]
  by (intro ao2_intros ao_scanAll)

lemma ao2_validateNavigation: "appendOnly2 (validateNavigation config)"
  unfolding validateNavigation_def[abs_def]
  by (intro ao2_intros ao2_navPages ao2_navSection ao2_navScoped ao2_navGlobal ao_groupCallback
      ao_tabCallback ao_requireKey ao2_versionCallback ao2_languageCallback)

lemma ao2_groupCallback_old:
  assumes "\<And>x i. appendOnly (pageCallback x i)"
  shows "appendOnly2 (groupCallback_old pageCallback grp index)"
proof (cases "getProp (Val grp) ''pages''")
  case None
  then have "groupCallback_old pageCallback grp index = (\<lambda>s. None)"
    by (intro ext) (simp add: groupCallback_old_def split: bind_splits)
  then show ?thesis by (simp add: ao2_None)
next
  case (Some pages)
  have "groupCallback_old pageCallback grp index =
        (\<lambda>s. groupCallback grp index (fst s) \<bind>
             (\<lambda>e. (if truthy pages then forEach pages pageCallback (snd s) else Some (snd s)) \<bind>
                  (\<lambda>w. Some (e, w))))"
    by (intro ext) (simp add: groupCallback_old_def Some)
  moreover have "appendOnly (\<lambda>w. if truthy pages then forEach pages pageCallback w else Some w)"
    by (intro ao_intros ao_forEach assms)
  ultimately show ?thesis using ao2_both[OF ao_groupCallback, of _ grp index] by simp
qed

lemma ao2_navigation_old:
  assumes "\<And>x i. appendOnly (pageCallback x i)"
  shows "appendOnly2 (navigation_old pageCallback config)"
  unfolding navigation_old_def[abs_def]
  by (intro ao2_intros ao2_forEach ao2_groupCallback_old ao_forEach ao_tabCallback_old assms)

section \<open>Reading the checks entry by entry\<close>

lemma getProp_propOf: "x \<noteq> JNull \<Longrightarrow> getProp (Val x) k = Some (propOf x k)"
  by (cases x) (simp_all add: propOf_def)

lemma requireKey_eq:
  "x \<noteq> JNull \<Longrightarrow> requireKey label key x index errs =
     Some (errs @ (if truthy (propOf x key) then [] else [missingMsg label index key]))"
  by (simp add: requireKey_def getProp_propOf)

lemma falsy_json: "(\<not> truthy (Val v)) = (v = JNull \<or> v = JBool False \<or> v = JNum 0 \<or> v = JStr [])"
  by (cases v) auto

lemma invalidThemeMsg_text:
  "invalidThemeMsg t = ''Invalid theme '' @ quoted t @
     ''. Must be one of: mint, maple, palm, willow, linden, almond, aspen''"
  by (simp add: invalidThemeMsg_def validThemes_def)

lemma required_ne_invalid:
  "themeRequiredMsg \<noteq> invalidThemeMsg t" "nameRequiredMsg \<noteq> invalidThemeMsg t"
  by (simp_all add: themeRequiredMsg_def nameRequiredMsg_def invalidThemeMsg_def)

lemma validateRequiredFields_cases:
  assumes "getProp (Val config) ''theme'' = Some theme" "getProp (Val config) ''name'' = Some name"
  shows "validateRequiredFields config errs =
    (if \<not> truthy theme
       then Some (errs @ [themeRequiredMsg] @ (if truthy name then [] else [nameRequiredMsg]))
     else if arrayIncludes validThemes theme
       then Some (errs @ (if truthy name then [] else [nameRequiredMsg]))
     else map_option (\<lambda>t. errs @ [invalidThemeMsg t] @ (if truthy name then [] else [nameRequiredMsg]))
            (toStr theme))"
  using assms by (cases "toStr theme") (simp_all add: validateRequiredFields_def)

section \<open>The pipeline on texts\<close>

lemma parsedConfig_cases:
  "parsedConfig JSON_parse jsonInput =
     (if trim jsonInput = [] then JNull
      else case JSON_parse jsonInput of Inl m \<Rightarrow> JNull | Inr v \<Rightarrow> v)"
  by (simp add: parsedConfig_def split: sum.splits)

lemma getProp_nonObject:
  assumes "v \<noteq> JNull" "\<And>kvs. v \<noteq> JObj kvs" "k \<noteq> ''anchor''"
  shows "getProp (Val v) k = Some Undefined"
  using assms by (cases v) auto

lemma validateDocsJson_nonObject:
  assumes "v \<noteq> JNull" "\<And>kvs. v \<noteq> JObj kvs"
  shows "validateDocsJson v = Some nonObjectResult"
  by (simp add: validateDocsJson_def validateRequiredFields_def validateColors_def checkPrimary_def
      checkOptionalColors_def validateNavigation_def validateAssets_def checkLogo_def
      checkFavicon_def validateIntegrations_def validateBestPractices_def nudge_def
      getProp_nonObject[OF assms] nonObjectResult_def del: getProp.simps)

lemma mount_null:
  "mount JSON_parse = Some \<lparr>inputDep = [], parsedMemo = JNull, resultMemo = None\<rparr>"
  by (simp add: mount_def parsedConfig_def validationResult_def trim_def)

lemma parsedConfig_truthy: "truthy (Val (parsedConfig JSON_parse jsonInput)) \<Longrightarrow> trim jsonInput \<noteq> []"
  by (auto simp: parsedConfig_def)

lemma session_memos:
  assumes "session JSON_parse texts = Some memos"
  shows "parsedMemo memos = parsedConfig JSON_parse (inputDep memos) \<and>
         (truthy (Val (parsedMemo memos)) \<longrightarrow>
            resultMemo memos \<noteq> None \<and> validateDocsJson (parsedMemo memos) = resultMemo memos)"
  using assms
proof (induction texts arbitrary: memos)
  case Nil
  then show ?case by (auto simp: mount_null parsedConfig_def trim_def)
next
  case (Cons t texts)
  then obtain m where m: "session JSON_parse texts = Some m" and r: "render JSON_parse t m = Some memos"
    by (auto simp: bind_eq_Some_conv)
  note ih = Cons.IH[OF m]
  show ?case
  proof (cases "t = inputDep m")
    case True
    then show ?thesis using r ih by (auto simp: render_def)
  next
    case False
    show ?thesis
    proof (cases "sameValue (parsedMemo m) (parsedConfig JSON_parse t)")
      case True
      then show ?thesis using r ih False by (auto simp: render_def sameValue_def)
    next
      case s: False
      then show ?thesis using r False parsedConfig_truthy[of JSON_parse t]
        by (auto simp: render_def validationResult_def Let_def split: if_splits)
    qed
  qed
qed

lemma render_truthy:
  assumes "session JSON_parse texts = Some memos" "truthy (Val doc)"
    "parsedConfig JSON_parse jsonInput = doc"
  shows "map_option resultMemo (render JSON_parse jsonInput memos) =
         map_option Some (validateDocsJson doc)"
proof -
  note inv = session_memos[OF assms(1)]
  have nb: "trim jsonInput \<noteq> []" using parsedConfig_truthy[of JSON_parse jsonInput] assms(2,3) by simp
  show ?thesis
  proof (cases "jsonInput = inputDep memos")
    case True
    then show ?thesis using inv assms(2,3) by (auto simp: render_def)
  next
    case False
    show ?thesis
    proof (cases "sameValue (parsedMemo memos) doc")
      case True
      then show ?thesis using inv assms(2,3) False by (auto simp: render_def sameValue_def)
    next
      case s: False
      then show ?thesis using assms(2,3) False nb
        by (simp add: render_def validationResult_def option.map_comp comp_def Let_def)
    qed
  qed
qed

section \<open>The documents of the examples\<close>

lemma passingDoc_passes:
  "validateDocsJson (JObj passingDoc) =
     Some \<lparr>errors = [], warnings = [schemaNudge, descriptionNudge, faviconNudge, logoNudge],
           isValid = True\<rparr>"
  by code_simp

lemma mixedDoc_result: "validateDocsJson mixedDoc = Some mixedResult"
  by code_simp

lemma afterEmptyObject_reached:
  "session (parsesTo (JObj [])) [''{}''] = Some afterEmptyObject"
  by (simp add: mount_null render_def parsedConfig_def parsesTo_def trim_def isWhiteSpace_def
      sameValue_def validationResult_def afterEmptyObject_def validateDocsJson_def
      validateRequiredFields_def validateColors_def checkPrimary_def checkOptionalColors_def
      validateNavigation_def validateAssets_def checkLogo_def checkFavicon_def
      validateIntegrations_def validateBestPractices_def nudge_def)

section \<open>The path scanner against the specification\<close>

lemma endsWith_append: "endsWith (a @ b) b"
  by (simp add: endsWith_def)

lemma refs_falsy: "\<not> truthy v \<Longrightarrow> spec_reservedRefs v = []"
  by (cases v rule: truthy.cases) (simp_all add: spec_reservedRefs.simps)

lemma checkNavigationPaths_app:
  "checkNavigationPaths v w c = Some w' \<Longrightarrow> \<exists>a. checkNavigationPaths v [] c = Some a \<and> w' = w @ a"
  using appendOnlyD[OF ao_checkNavigationPaths[of v c], of w]
  by (cases "checkNavigationPaths v [] c") simp_all

lemma stage_refs:
  assumes "(if truthy v then ctx \<bind> (\<lambda>c. checkNavigationPaths v w c) else Some w) = Some w'"
    and "\<And>c out. checkNavigationPaths v [] c = Some out \<Longrightarrow>
           list_all2 refersTo out (spec_reservedRefs v)"
  shows "\<exists>a. w' = w @ a \<and> list_all2 refersTo a (spec_reservedRefs v)"
proof (cases "truthy v")
  case True
  then obtain c where "checkNavigationPaths v w c = Some w'"
    using assms(1) by (auto simp: bind_eq_Some_conv)
  then obtain a where "checkNavigationPaths v [] c = Some a" "w' = w @ a"
    using checkNavigationPaths_app by blast
  then show ?thesis using assms(2) by blast
next
  case False
  then show ?thesis using assms(1) by (simp add: refs_falsy)
qed

lemma checkHref_refs:
  "\<exists>a. checkHref href w c = w @ a \<and> list_all2 refersTo a (hrefRef href)"
  by (auto simp: checkHref_def hrefRef_def refersTo_def endsWith_append reservedPath_def
      split: jsval.splits json.splits)

lemma callback_refs:
  assumes IH: "\<And>v c out. jsize v \<le> size item \<Longrightarrow> checkNavigationPaths v [] c = Some out \<Longrightarrow>
                 list_all2 refersTo out (spec_reservedRefs v)"
    and run: "checkNavigationPaths_callback item [] c = Some out"
  shows "list_all2 refersTo out (spec_reservedRefs_node item)"
proof (cases "isObject (Val item)")
  case False
  then show ?thesis using run
    by (cases item)
       (auto simp: checkNavigationPaths_callback.simps spec_reservedRefs_node.simps refersTo_def
          endsWith_append split: if_splits)
next
  case True
  then have nn: "item \<noteq> JNull" and ns: "\<And>s. item \<noteq> JStr s" by auto
  have eq: "checkNavigationPaths_callback item [] c =
      (if truthy (propOf item ''pages'')
               then pagesContext item c \<bind> (\<lambda>c'. checkNavigationPaths (propOf item ''pages'') [] c')
               else Some []) \<bind>
      (\<lambda>w1. (if truthy (propOf item ''groups'')
              then Some c \<bind> (\<lambda>c'. checkNavigationPaths (propOf item ''groups'') w1 c')
              else Some w1) \<bind>
      (\<lambda>w2. (if truthy (propOf item ''menu'')
              then menuContext item c \<bind> (\<lambda>c'. checkNavigationPaths (propOf item ''menu'') w2 c')
              else Some w2) \<bind>
      (\<lambda>w3. Some (checkHref (propOf item ''href'') w3 c))))"
    using True ns
    by (cases item) (simp_all add: checkNavigationPaths_callback.simps getProp_propOf del: getProp.simps)
  have "checkNavigationPaths_callback item [] c = Some out" by (rule run)
  then obtain w1 w2 w3 where
    s1: "(if truthy (propOf item ''pages'')
               then pagesContext item c \<bind> (\<lambda>c'. checkNavigationPaths (propOf item ''pages'') [] c')
               else Some []) = Some w1" and
    s2: "(if truthy (propOf item ''groups'')
              then Some c \<bind> (\<lambda>c'. checkNavigationPaths (propOf item ''groups'') w1 c')
              else Some w1) = Some w2" and
    s3: "(if truthy (propOf item ''menu'')
              then menuContext item c \<bind> (\<lambda>c'. checkNavigationPaths (propOf item ''menu'') w2 c')
              else Some w2) = Some w3" and
    s4: "out = checkHref (propOf item ''href'') w3 c"
    unfolding eq by (auto simp only: bind_eq_Some_conv option.inject)
  have ih: "list_all2 refersTo out' (spec_reservedRefs (propOf item k))"
    if "checkNavigationPaths (propOf item k) [] c' = Some out'" for k c' out'
    using IH[OF jsize_propOf that] .
  have "\<exists>a. w1 = [] @ a \<and> list_all2 refersTo a (spec_reservedRefs (propOf item ''pages''))"
    by (rule stage_refs[OF s1]) (rule ih)
  then obtain a1 where a1: "w1 = [] @ a1"
    "list_all2 refersTo a1 (spec_reservedRefs (propOf item ''pages''))" by blast
  have "\<exists>a. w2 = w1 @ a \<and> list_all2 refersTo a (spec_reservedRefs (propOf item ''groups''))"
    by (rule stage_refs[OF s2]) (rule ih)
  then obtain a2 where a2: "w2 = w1 @ a2"
    "list_all2 refersTo a2 (spec_reservedRefs (propOf item ''groups''))" by blast
  have "\<exists>a. w3 = w2 @ a \<and> list_all2 refersTo a (spec_reservedRefs (propOf item ''menu''))"
    by (rule stage_refs[OF s3]) (rule ih)
  then obtain a3 where a3: "w3 = w2 @ a3"
    "list_all2 refersTo a3 (spec_reservedRefs (propOf item ''menu''))" by blast
  obtain a4 where a4: "out = w3 @ a4" "list_all2 refersTo a4 (hrefRef (propOf item ''href''))"
    using checkHref_refs[of "propOf item ''href''" w3 c] s4 by auto
  have "list_all2 refersTo (a1 @ a2 @ a3 @ a4)
          (spec_reservedRefs (propOf item ''pages'') @ spec_reservedRefs (propOf item ''groups'') @
           spec_reservedRefs (propOf item ''menu'') @ hrefRef (propOf item ''href''))"
    by (intro list_all2_appendI a1 a2 a3 a4)
  moreover have "out = a1 @ a2 @ a3 @ a4" using a1(1) a2(1) a3(1) a4(1) by simp
  moreover have "spec_reservedRefs_node item =
          spec_reservedRefs (propOf item ''pages'') @ spec_reservedRefs (propOf item ''groups'') @
           spec_reservedRefs (propOf item ''menu'') @ hrefRef (propOf item ''href'')"
    using True ns by (cases item) (simp_all add: spec_reservedRefs_node.simps)
  ultimately show ?thesis by simp
qed

lemma forEach_refs:
  assumes "\<And>x v c out. x \<in> set xs \<Longrightarrow> jsize v \<le> size x \<Longrightarrow>
             checkNavigationPaths v [] c = Some out \<Longrightarrow> list_all2 refersTo out (spec_reservedRefs v)"
    and "checkNavigationPaths_forEach xs [] c = Some out"
  shows "list_all2 refersTo out (spec_reservedRefs_list xs)"
  using assms
proof (induction xs arbitrary: out)
  case Nil
  then show ?case by simp
next
  case (Cons x xs)
  from Cons.prems(2) obtain w where w: "checkNavigationPaths_callback x [] c = Some w"
    and r: "checkNavigationPaths_forEach xs w c = Some out"
    by (auto simp: bind_eq_Some_conv)
  have aof: "appendOnly (\<lambda>w. checkNavigationPaths_forEach xs w c)"
    by (rule ao_cnp_forEach) (rule ao_checkNavigationPaths)
  obtain a where a: "checkNavigationPaths_forEach xs [] c = Some a" "out = w @ a"
    using appendOnlyD[OF aof, of w] r by (cases "checkNavigationPaths_forEach xs [] c") simp_all
  have 1: "list_all2 refersTo w (spec_reservedRefs_node x)"
    by (rule callback_refs[OF _ w]) (rule Cons.prems(1), simp_all)
  have 2: "list_all2 refersTo a (spec_reservedRefs_list xs)"
    by (rule Cons.IH[OF _ a(1)]) (rule Cons.prems(1), simp_all)
  show ?case using 1 2 a(2) by (simp add: list_all2_appendI)
qed

lemma checkNavigationPaths_refs:
  "checkNavigationPaths items [] c = Some out \<Longrightarrow> list_all2 refersTo out (spec_reservedRefs items)"
proof (induction "jsize items" arbitrary: items c out rule: less_induct)
  case less
  show ?case
  proof (cases "isArray items")
    case True
    then obtain xs where v: "items = Val (JArr xs)" by (cases items rule: isArray.cases) auto
    have run: "checkNavigationPaths_forEach xs [] c = Some out"
      using less.prems by (simp add: v checkNavigationPaths.simps)
    have "list_all2 refersTo out (spec_reservedRefs_list xs)"
    proof (rule forEach_refs[OF _ run])
      fix x v' c' out'
      assume "x \<in> set xs" "jsize v' \<le> size x" "checkNavigationPaths v' [] c' = Some out'"
      moreover from this have "jsize v' < jsize items" using size_mem[of x xs] by (simp add: v)
      ultimately show "list_all2 refersTo out' (spec_reservedRefs v')" using less.hyps by blast
    qed
    then show ?thesis by (simp add: v spec_reservedRefs.simps)
  next
    case False
    then show ?thesis using less.prems
      by (cases items rule: isArray.cases)
         (auto simp: checkNavigationPaths.simps spec_reservedRefs.simps)
  qed
qed

lemma printable_toStrJson:
  "printable j \<Longrightarrow> toStrJson j \<noteq> None"
  "printableList xs \<Longrightarrow> joinJson xs \<noteq> None"
  by (induction j and xs rule: toStrJson_joinJson.induct) (auto simp: bind_eq_None_conv)

lemma printable_toStr: "printableV v \<Longrightarrow> \<exists>s. toStr v = Some s"
  using printable_toStrJson(1) by (cases v) auto

lemma printableFields_map_of: "printableFields kvs \<Longrightarrow> map_of kvs k = Some v \<Longrightarrow> printable v"
  by (induction kvs) (auto split: if_splits)

lemma printable_propOf: "printable x \<Longrightarrow> printableV (propOf x k)"
  by (cases x) (auto simp: propOf_def split: option.splits dest: printableFields_map_of)

lemma printableList_mem: "printableList xs \<Longrightarrow> x \<in> set xs \<Longrightarrow> printable x"
  by (induction xs) auto

lemma printable_orElse: "printableV a \<Longrightarrow> printableV b \<Longrightarrow> printableV (orElse a b)"
  by (simp add: orElse_def)

lemma pagesContext_ok:
  assumes "printable item" "item \<noteq> JNull"
  shows "\<exists>c'. pagesContext item c = Some c'"
proof -
  have "printableV (orElse (propOf item ''group'') (orElse (propOf item ''item'')
          (orElse (propOf item ''tab'') (orElse (propOf item ''anchor'') (propOf item ''dropdown'')))))"
    by (intro printable_orElse printable_propOf assms(1))
  then obtain s where "toStr (orElse (propOf item ''group'') (orElse (propOf item ''item'')
          (orElse (propOf item ''tab'') (orElse (propOf item ''anchor'') (propOf item ''dropdown''))))) = Some s"
    using printable_toStr by blast
  then show ?thesis
    by (simp add: pagesContext_def getProp_propOf[OF assms(2)] del: getProp.simps)
qed

lemma menuContext_ok:
  assumes "printable item" "item \<noteq> JNull"
  shows "\<exists>c'. menuContext item c = Some c'"
proof -
  obtain s where "toStr (propOf item ''tab'') = Some s"
    using printable_toStr[OF printable_propOf[OF assms(1)]] by blast
  then show ?thesis
    by (simp add: menuContext_def getProp_propOf[OF assms(2)] del: getProp.simps)
qed

lemma callback_object:
  assumes "isObject (Val item)"
  shows "checkNavigationPaths_callback item w c =
      (if truthy (propOf item ''pages'')
       then pagesContext item c \<bind> (\<lambda>c'. checkNavigationPaths (propOf item ''pages'') w c')
       else Some w) \<bind>
      (\<lambda>w1. (if truthy (propOf item ''groups'')
              then checkNavigationPaths (propOf item ''groups'') w1 c
              else Some w1) \<bind>
      (\<lambda>w2. (if truthy (propOf item ''menu'')
              then menuContext item c \<bind> (\<lambda>c'. checkNavigationPaths (propOf item ''menu'') w2 c')
              else Some w2) \<bind>
      (\<lambda>w3. Some (checkHref (propOf item ''href'') w3 c))))"
  using assms
  by (cases item) (simp_all add: checkNavigationPaths_callback.simps getProp_propOf del: getProp.simps)

lemma callback_total:
  assumes IH: "\<And>v w c. jsize v \<le> size item \<Longrightarrow> printableV v \<Longrightarrow>
                 \<exists>w'. checkNavigationPaths v w c = Some w'"
    and p: "printable item"
  shows "\<exists>w'. checkNavigationPaths_callback item w c = Some w'"
proof (cases "isObject (Val item)")
  case False
  then show ?thesis by (cases item) (auto simp: checkNavigationPaths_callback.simps)
next
  case True
  then have nn: "item \<noteq> JNull" by auto
  have ih: "\<exists>w'. checkNavigationPaths (propOf item k) w c' = Some w'" for k w c'
    by (rule IH[OF jsize_propOf printable_propOf[OF p]])
  obtain c1 where c1: "pagesContext item c = Some c1" using pagesContext_ok[OF p nn] by blast
  obtain c3 where c3: "menuContext item c = Some c3" using menuContext_ok[OF p nn] by blast
  obtain w1 where w1: "(if truthy (propOf item ''pages'')
        then checkNavigationPaths (propOf item ''pages'') w c1 else Some w) = Some w1"
    using ih[of "''pages''" w c1] by (cases "truthy (propOf item ''pages'')") auto
  obtain w2 where w2: "(if truthy (propOf item ''groups'')
        then checkNavigationPaths (propOf item ''groups'') w1 c else Some w1) = Some w2"
    using ih[of "''groups''" w1 c] by (cases "truthy (propOf item ''groups'')") auto
  obtain w3 where w3: "(if truthy (propOf item ''menu'')
        then checkNavigationPaths (propOf item ''menu'') w2 c3 else Some w2) = Some w3"
    using ih[of "''menu''" w2 c3] by (cases "truthy (propOf item ''menu'')") auto
  show ?thesis
    unfolding callback_object[OF True] c1 c3 Option.bind.bind_lunit w1 w2 w3 by simp
qed

lemma forEach_total:
  assumes "\<And>x v w c. x \<in> set xs \<Longrightarrow> jsize v \<le> size x \<Longrightarrow> printableV v \<Longrightarrow>
                 \<exists>w'. checkNavigationPaths v w c = Some w'"
    and "printableList xs"
  shows "\<exists>w'. checkNavigationPaths_forEach xs w c = Some w'"
  using assms
proof (induction xs arbitrary: w)
  case Nil
  then show ?case by simp
next
  case (Cons x xs)
  have "\<exists>w1. checkNavigationPaths_callback x w c = Some w1"
  proof (rule callback_total)
    fix v w' c'
    assume "jsize v \<le> size x" "printableV v"
    then show "\<exists>w''. checkNavigationPaths v w' c' = Some w''"
      using Cons.prems(1)[of x v w' c'] by simp
  next
    show "printable x" using Cons.prems(2) by simp
  qed
  then obtain w1 where w1: "checkNavigationPaths_callback x w c = Some w1" by blast
  have "\<exists>w'. checkNavigationPaths_forEach xs w1 c = Some w'"
  proof (rule Cons.IH)
    fix y v w' c'
    assume "y \<in> set xs" "jsize v \<le> size y" "printableV v"
    then show "\<exists>w''. checkNavigationPaths v w' c' = Some w''"
      using Cons.prems(1)[of y v w' c'] by simp
  next
    show "printableList xs" using Cons.prems(2) by simp
  qed
  then show ?case using w1 by simp
qed

lemma checkNavigationPaths_total:
  "printableV items \<Longrightarrow> \<exists>w'. checkNavigationPaths items w c = Some w'"
proof (induction "jsize items" arbitrary: items w c rule: less_induct)
  case less
  show ?case
  proof (cases "isArray items")
    case True
    then obtain xs where v: "items = Val (JArr xs)" by (cases items rule: isArray.cases) auto
    have "\<exists>w'. checkNavigationPaths_forEach xs w c = Some w'"
    proof (rule forEach_total)
      fix x v' w' c'
      assume "x \<in> set xs" "jsize v' \<le> size x" "printableV v'"
      moreover from this have "jsize v' < jsize items" using size_mem[of x xs] by (simp add: v)
      ultimately show "\<exists>w''. checkNavigationPaths v' w' c' = Some w''" using less.hyps by blast
    next
      show "printableList xs" using less.prems by (simp add: v)
    qed
    then show ?thesis by (simp add: v checkNavigationPaths.simps)
  next
    case False
    then show ?thesis
      by (cases items rule: isArray.cases) (auto simp: checkNavigationPaths.simps)
  qed
qed

lemma guideTree_scan:
  "checkNavigationPaths (Val (JArr guideTree)) [] [] =
     Some [''Navigation item 'G' page 'guides/mcp/setup' uses reserved path. /mcp paths are reserved and may cause 404 errors'',
           '' href 'docs/mcp' uses reserved path. /mcp paths are reserved and may cause 404 errors'']"
  by code_simp

lemma guideTree_refs:
  "spec_reservedRefs (Val (JArr guideTree)) = [(''page'', ''guides/mcp/setup''), (''href'', ''docs/mcp'')]"
  by code_simp

section \<open>The validator against the result read off the document\<close>

text \<open>
  Each check, whatever the arrays hold when it starts, appends what the function of the
  document lists for it; \<^verbatim>\<open>forEach\<close> appends the reports of the entries by increasing
  index.
\<close>

lemma toStr_shown: "toStr v = Some s \<Longrightarrow> shown v = s"
  by (simp add: shown_def)

lemma getProp_propOfD: "getProp (Val x) k = Some v \<Longrightarrow> propOf x k = v"
  by (simp add: propOf_def)

lemma pagesContext_spec: "pagesContext item c = Some c' \<Longrightarrow> c' = spec_pagesContext item c"
  by (auto simp: pagesContext_def spec_pagesContext_def bind_eq_Some_conv
      dest!: getProp_propOfD toStr_shown split: if_splits)

lemma menuContext_spec: "menuContext item c = Some c' \<Longrightarrow> c' = spec_menuContext item c"
  by (auto simp: menuContext_def spec_menuContext_def bind_eq_Some_conv
      dest!: getProp_propOfD toStr_shown split: if_splits)

lemma scan_falsy: "\<not> truthy v \<Longrightarrow> spec_scan v c = []"
  by (cases v rule: truthy.cases) (simp_all add: spec_scan.simps)

lemma checkHref_spec: "checkHref href w c = w @ spec_href href c"
  by (auto simp: checkHref_def spec_href_def split: jsval.splits json.splits)

lemma stage_scan:
  assumes run: "(if truthy v then ctx \<bind> (\<lambda>c. checkNavigationPaths v w c) else Some w) = Some w'"
    and ih: "\<And>c out. checkNavigationPaths v [] c = Some out \<Longrightarrow> out = spec_scan v c"
    and cx: "\<And>c. ctx = Some c \<Longrightarrow> c = c0"
  shows "w' = w @ spec_scan v c0"
proof (cases "truthy v")
  case True
  then obtain c where c: "ctx = Some c" and r: "checkNavigationPaths v w c = Some w'"
    using run by (auto simp: bind_eq_Some_conv)
  obtain a where "checkNavigationPaths v [] c = Some a" "w' = w @ a"
    using checkNavigationPaths_app[OF r] by blast
  then show ?thesis using ih cx[OF c] by blast
next
  case False
  then show ?thesis using run by (simp add: scan_falsy)
qed

lemma callback_scan:
  assumes IH: "\<And>v c out. jsize v \<le> size item \<Longrightarrow> checkNavigationPaths v [] c = Some out \<Longrightarrow>
                 out = spec_scan v c"
    and run: "checkNavigationPaths_callback item [] c = Some out"
  shows "out = spec_scan_node item c"
proof (cases "isObject (Val item)")
  case False
  then show ?thesis using run
    by (cases item)
       (auto simp: checkNavigationPaths_callback.simps spec_scan_node.simps split: if_splits)
next
  case True
  then have nn: "item \<noteq> JNull" and ns: "\<And>s. item \<noteq> JStr s" by auto
  have eq: "checkNavigationPaths_callback item [] c =
      (if truthy (propOf item ''pages'')
               then pagesContext item c \<bind> (\<lambda>c'. checkNavigationPaths (propOf item ''pages'') [] c')
               else Some []) \<bind>
      (\<lambda>w1. (if truthy (propOf item ''groups'')
              then Some c \<bind> (\<lambda>c'. checkNavigationPaths (propOf item ''groups'') w1 c')
              else Some w1) \<bind>
      (\<lambda>w2. (if truthy (propOf item ''menu'')
              then menuContext item c \<bind> (\<lambda>c'. checkNavigationPaths (propOf item ''menu'') w2 c')
              else Some w2) \<bind>
      (\<lambda>w3. Some (checkHref (propOf item ''href'') w3 c))))"
    using True ns
    by (cases item) (simp_all add: checkNavigationPaths_callback.simps getProp_propOf del: getProp.simps)
  have "checkNavigationPaths_callback item [] c = Some out" by (rule run)
  then obtain w1 w2 w3 where
    s1: "(if truthy (propOf item ''pages'')
               then pagesContext item c \<bind> (\<lambda>c'. checkNavigationPaths (propOf item ''pages'') [] c')
               else Some []) = Some w1" and
    s2: "(if truthy (propOf item ''groups'')
              then Some c \<bind> (\<lambda>c'. checkNavigationPaths (propOf item ''groups'') w1 c')
              else Some w1) = Some w2" and
    s3: "(if truthy (propOf item ''menu'')
              then menuContext item c \<bind> (\<lambda>c'. checkNavigationPaths (propOf item ''menu'') w2 c')
              else Some w2) = Some w3" and
    s4: "out = checkHref (propOf item ''href'') w3 c"
    unfolding eq by (auto simp only: bind_eq_Some_conv option.inject)
  have ih: "out' = spec_scan (propOf item k) c'"
    if "checkNavigationPaths (propOf item k) [] c' = Some out'" for k c' out'
    using IH[OF jsize_propOf that] .
  have a1: "w1 = [] @ spec_scan (propOf item ''pages'') (spec_pagesContext item c)"
    by (rule stage_scan[OF s1]) (erule ih, erule pagesContext_spec)
  have a2: "w2 = w1 @ spec_scan (propOf item ''groups'') c"
    by (rule stage_scan[OF s2]) (erule ih, simp)
  have a3: "w3 = w2 @ spec_scan (propOf item ''menu'') (spec_menuContext item c)"
    by (rule stage_scan[OF s3]) (erule ih, erule menuContext_spec)
  have "spec_scan_node item c =
          spec_scan (propOf item ''pages'') (spec_pagesContext item c) @
          spec_scan (propOf item ''groups'') c @
          spec_scan (propOf item ''menu'') (spec_menuContext item c) @
          spec_href (propOf item ''href'') c"
    using True ns by (cases item) (simp_all add: spec_scan_node.simps)
  then show ?thesis using a1 a2 a3 s4 by (simp add: checkHref_spec)
qed

lemma forEach_scan:
  assumes "\<And>x v c out. x \<in> set xs \<Longrightarrow> jsize v \<le> size x \<Longrightarrow>
             checkNavigationPaths v [] c = Some out \<Longrightarrow> out = spec_scan v c"
    and "checkNavigationPaths_forEach xs [] c = Some out"
  shows "out = spec_scan_list xs c"
  using assms
proof (induction xs arbitrary: out)
  case Nil
  then show ?case by simp
next
  case (Cons x xs)
  from Cons.prems(2) obtain w where w: "checkNavigationPaths_callback x [] c = Some w"
    and r: "checkNavigationPaths_forEach xs w c = Some out"
    by (auto simp: bind_eq_Some_conv)
  have aof: "appendOnly (\<lambda>w. checkNavigationPaths_forEach xs w c)"
    by (rule ao_cnp_forEach) (rule ao_checkNavigationPaths)
  obtain a where a: "checkNavigationPaths_forEach xs [] c = Some a" "out = w @ a"
    using appendOnlyD[OF aof, of w] r by (cases "checkNavigationPaths_forEach xs [] c") simp_all
  have 1: "w = spec_scan_node x c"
    by (rule callback_scan[OF _ w]) (rule Cons.prems(1), simp_all)
  have 2: "a = spec_scan_list xs c"
    by (rule Cons.IH[OF _ a(1)]) (rule Cons.prems(1), simp_all)
  show ?case using 1 2 a(2) by simp
qed

lemma checkNavigationPaths_scan:
  "checkNavigationPaths items [] c = Some out \<Longrightarrow> out = spec_scan items c"
proof (induction "jsize items" arbitrary: items c out rule: less_induct)
  case less
  show ?case
  proof (cases "isArray items")
    case True
    then obtain xs where v: "items = Val (JArr xs)" by (cases items rule: isArray.cases) auto
    have run: "checkNavigationPaths_forEach xs [] c = Some out"
      using less.prems by (simp add: v checkNavigationPaths.simps)
    have "out = spec_scan_list xs c"
    proof (rule forEach_scan[OF _ run])
      fix x v' c' out'
      assume "x \<in> set xs" "jsize v' \<le> size x" "checkNavigationPaths v' [] c' = Some out'"
      moreover from this have "jsize v' < jsize items" using size_mem[of x xs] by (simp add: v)
      ultimately show "out' = spec_scan v' c'" using less.hyps by blast
    qed
    then show ?thesis by (simp add: v spec_scan.simps)
  next
    case False
    then show ?thesis using less.prems
      by (cases items rule: isArray.cases)
         (auto simp: checkNavigationPaths.simps spec_scan.simps)
  qed
qed

lemma scan_spec: "checkNavigationPaths v w c = Some out \<Longrightarrow> out = w @ spec_scan v c"
  using checkNavigationPaths_app[of v w c out] checkNavigationPaths_scan by blast

lemma getProp_propV: "getProp v k = Some x \<Longrightarrow> propV v k = x"
  by (simp add: propV_def)

lemma propOf_propV: "propOf x k = propV (Val x) k"
  by (simp add: propOf_def propV_def)

lemma match_matches: "match v re = Some b \<Longrightarrow> matches v re = b"
  by (simp add: matches_def)

lemmas readD = getProp_propV match_matches toStr_shown

lemma required_spec:
  "validateRequiredFields config errs = Some out \<Longrightarrow> out = errs @ spec_required config"
  by (auto simp: validateRequiredFields_def spec_required_def bind_eq_Some_conv propOf_propV
      dest!: readD split: if_splits)

lemma mode_spec:
  "checkMode colors mode errs = Some out \<Longrightarrow> out = errs @ spec_mode colors mode"
  by (auto simp: checkMode_def spec_mode_def bind_eq_Some_conv propOf_propV dest!: readD split: if_splits)

lemma colors_spec:
  "validateColors config errs = Some out \<Longrightarrow> out = errs @ spec_colors config"
  by (auto simp: validateColors_def checkPrimary_def checkOptionalColors_def spec_colors_def
      bind_eq_Some_conv propOf_propV Let_def dest!: readD mode_spec split: if_splits)

lemma key_spec:
  "requireKey label key x index errs = Some out \<Longrightarrow> out = errs @ spec_key label key index x"
  by (auto simp: requireKey_def spec_key_def bind_eq_Some_conv propOf_propV dest!: readD split: if_splits)

lemma group_spec:
  "groupCallback grp index errs = Some out \<Longrightarrow> out = errs @ spec_group index grp"
  by (auto simp: groupCallback_def spec_group_def bind_eq_Some_conv propOf_propV
      dest!: readD key_spec split: if_splits)

lemma menuItem_spec:
  "menuItemCallback tab menuItem menuIndex errs = Some out \<Longrightarrow>
   out = errs @ spec_menuItem tab menuIndex menuItem"
  by (auto simp: menuItemCallback_def spec_menuItem_def menuItemMsg_def bind_eq_Some_conv propOf_propV
      dest!: readD split: if_splits)

lemma forEachFrom_spec:
  assumes "\<And>x j w w'. f x j w = Some w' \<Longrightarrow> w' = w @ g j x"
  shows "forEachFrom f xs i w = Some out \<Longrightarrow>
         out = w @ concat (map (\<lambda>(j, x). g j x) (enumerate i xs))"
proof (induction xs arbitrary: i w)
  case Nil
  then show ?case by simp
next
  case (Cons x xs)
  then obtain w1 where 1: "f x i w = Some w1" and 2: "forEachFrom f xs (Suc i) w1 = Some out"
    by (auto simp: bind_eq_Some_conv propOf_propV)
  show ?case using assms[OF 1] Cons.IH[OF 2] by simp
qed

lemma perEntry_falsy: "\<not> truthy v \<Longrightarrow> perEntry g v = []"
  by (cases v rule: truthy.cases) (simp_all add: perEntry_def)

lemma forEach_spec:
  assumes "\<And>x j w w'. f x j w = Some w' \<Longrightarrow> w' = w @ g j x"
  shows "forEach v f w = Some out \<Longrightarrow> out = w @ perEntry g v"
proof -
  assume a: "forEach v f w = Some out"
  then obtain xs where v: "v = Val (JArr xs)" by (cases v rule: isArray.cases) auto
  show ?thesis using a forEachFrom_spec[of f g xs 0 w out, OF assms] by (simp add: v perEntry_def)
qed

lemma tab_spec:
  assumes "tabCallback tab index errs = Some out"
  shows "out = errs @ spec_tab index tab"
proof -
  obtain errs1 menu where 1: "requireKey ''Navigation tab'' ''tab'' tab index errs = Some errs1"
    and 2: "getProp (Val tab) ''menu'' = Some menu"
    and 3: "(if truthy menu then forEach menu (menuItemCallback tab) errs1 else Some errs1) = Some out"
    using assms by (auto simp: tabCallback_def bind_eq_Some_conv)
  have m: "propOf tab ''menu'' = menu" using 2 by (simp add: propOf_def)
  have "out = errs1 @ perEntry (spec_menuItem tab) menu"
  proof (cases "truthy menu")
    case True
    then show ?thesis using 3 forEach_spec[of "menuItemCallback tab" "spec_menuItem tab", OF menuItem_spec]
      by simp
  next
    case False
    then show ?thesis using 3 by (simp add: perEntry_falsy)
  qed
  then show ?thesis using key_spec[OF 1] by (simp add: spec_tab_def m)
qed

lemma startsWithM_matches: "startsWithM v p = Some b \<Longrightarrow> matches v (\<lambda>s. startsWith s p) = b"
  by (cases v rule: isString.cases) (auto simp: matches_def)

lemma globalAnchor_spec:
  "globalAnchorCallback anchor index errs = Some out \<Longrightarrow> out = errs @ spec_globalAnchor index anchor"
  by (auto simp: globalAnchorCallback_def spec_globalAnchor_def bind_eq_Some_conv propOf_propV
      dest!: getProp_propV toStr_shown key_spec startsWithM_matches split: if_splits)

lemma scanUnder_spec:
  "scanUnder label name x key warns = Some out \<Longrightarrow>
   out = warns @ spec_scan (propOf x key) (label @ '' '' @ quoted (shown name))"
  by (auto simp: scanUnder_def bind_eq_Some_conv propOf_propV scan_falsy
      dest!: getProp_propV toStr_shown scan_spec split: if_splits)

lemma scanAll_spec:
  "scanAll label name x warns = Some out \<Longrightarrow> out = warns @ spec_scanAll label name x"
  by (auto simp: scanAll_def spec_scanAll_def bind_eq_Some_conv dest!: scanUnder_spec)

lemma version_spec:
  "versionCallback version index st = Some st' \<Longrightarrow>
   st' = (fst st @ spec_key ''Navigation version'' ''version'' index version,
          snd st @ spec_version index version)"
  by (auto simp: versionCallback_def spec_version_def bind_eq_Some_conv propOf_propV
      dest!: getProp_propV key_spec scanAll_spec)

lemma language_spec:
  "languageCallback language index st = Some st' \<Longrightarrow>
   st' = (fst st @ spec_key ''Navigation language'' ''language'' index language,
          snd st @ spec_language index language)"
  by (auto simp: languageCallback_def spec_language_def spec_key_def bind_eq_Some_conv propOf_propV
      Let_def dest!: getProp_propV toStr_shown scanAll_spec split: if_splits)

lemma forEachFrom_spec2:
  assumes "\<And>x j st st'. f x j st = Some st' \<Longrightarrow> st' = (fst st @ ge j x, snd st @ gw j x)"
  shows "forEachFrom f xs i st = Some out \<Longrightarrow>
         out = (fst st @ concat (map (\<lambda>(j, x). ge j x) (enumerate i xs)),
                snd st @ concat (map (\<lambda>(j, x). gw j x) (enumerate i xs)))"
proof (induction xs arbitrary: i st)
  case Nil
  then show ?case by simp
next
  case (Cons x xs)
  then obtain s1 where 1: "f x i st = Some s1" and 2: "forEachFrom f xs (Suc i) s1 = Some out"
    by (auto simp: bind_eq_Some_conv)
  show ?case using assms[OF 1] Cons.IH[OF 2] by simp
qed

lemma forEach_spec2:
  assumes "\<And>x j st st'. f x j st = Some st' \<Longrightarrow> st' = (fst st @ ge j x, snd st @ gw j x)"
  shows "forEach v f st = Some out \<Longrightarrow> out = (fst st @ perEntry ge v, snd st @ perEntry gw v)"
proof -
  assume a: "forEach v f st = Some out"
  then obtain xs where v: "v = Val (JArr xs)" by (cases v rule: isArray.cases) auto
  show ?thesis using a forEachFrom_spec2[of f ge gw xs 0 st out, OF assms]
    by (simp add: v perEntry_def)
qed

lemma navPages_spec:
  "navPages nav st = Some st' \<Longrightarrow>
   st' = (fst st, snd st @ spec_scan (propV nav ''pages'') ''Root navigation'')"
  by (cases st) (auto simp: navPages_def bind_eq_Some_conv scan_falsy
      dest!: getProp_propV scan_spec split: if_splits)

lemma navSection_spec:
  assumes cb: "\<And>x j w w'. callback x j w = Some w' \<Longrightarrow> w' = w @ report j x"
    and run: "navSection key callback nav st = Some st'"
  shows "st' = (fst st @ perEntry report (propV nav key), snd st @ spec_scan (propV nav key) [])"
proof -
  obtain entries where e: "getProp nav key = Some entries"
    and r: "(if truthy entries then do {
         errs1 \<leftarrow> forEach entries callback (fst st);
         warns1 \<leftarrow> checkNavigationPaths entries (snd st) [];
         Some (errs1, warns1) } else Some st) = Some st'"
    using run by (auto simp: navSection_def bind_eq_Some_conv)
  have p: "propV nav key = entries" using e by (rule getProp_propV)
  show ?thesis
  proof (cases "truthy entries")
    case True
    then obtain errs1 warns1 where 1: "forEach entries callback (fst st) = Some errs1"
      and 2: "checkNavigationPaths entries (snd st) [] = Some warns1" and 3: "st' = (errs1, warns1)"
      using r by (auto simp: bind_eq_Some_conv)
    show ?thesis using forEach_spec[of callback report, OF cb 1] scan_spec[OF 2] 3 by (simp add: p)
  next
    case False
    then show ?thesis using r by (cases st) (simp add: p perEntry_falsy scan_falsy)
  qed
qed

lemma navScoped_spec:
  assumes cb: "\<And>x j st st'. callback x j st = Some st' \<Longrightarrow> st' = (fst st @ ge j x, snd st @ gw j x)"
    and run: "navScoped key callback nav st = Some st'"
  shows "st' = (fst st @ perEntry ge (propV nav key), snd st @ perEntry gw (propV nav key))"
proof -
  obtain entries where e: "getProp nav key = Some entries"
    and r: "(if truthy entries then forEach entries callback st else Some st) = Some st'"
    using run by (auto simp: navScoped_def bind_eq_Some_conv)
  have p: "propV nav key = entries" using e by (rule getProp_propV)
  show ?thesis
  proof (cases "truthy entries")
    case True
    then show ?thesis using r forEach_spec2[of callback ge gw entries st st', OF cb] by (simp add: p)
  next
    case False
    then show ?thesis using r by (cases st) (simp add: p perEntry_falsy)
  qed
qed

lemma navGlobal_spec:
  assumes run: "navGlobal nav st = Some st'"
  shows "st' = (fst st @ perEntry spec_globalAnchor (propV (propV nav ''global'') ''anchors''),
                snd st @ spec_scan (propV (propV nav ''global'') ''anchors'') ''Global anchors'')"
proof -
  obtain global anchors where g: "getProp nav ''global'' = Some global"
    and a: "(if global = Undefined \<or> global = Val JNull then Some Undefined
             else getProp global ''anchors'') = Some anchors"
    and r: "(if truthy anchors then do {
         errs1 \<leftarrow> forEach anchors globalAnchorCallback (fst st);
         warns1 \<leftarrow> checkNavigationPaths anchors (snd st) ''Global anchors'';
         Some (errs1, warns1) } else Some st) = Some st'"
    using run by (auto simp: navGlobal_def bind_eq_Some_conv)
  have pg: "propV nav ''global'' = global" using g by (rule getProp_propV)
  have p: "propV global ''anchors'' = anchors"
    using a by (auto simp: propV_def split: if_splits)
  show ?thesis
  proof (cases "truthy anchors")
    case True
    then obtain errs1 warns1 where 1: "forEach anchors globalAnchorCallback (fst st) = Some errs1"
      and 2: "checkNavigationPaths anchors (snd st) ''Global anchors'' = Some warns1"
      and 3: "st' = (errs1, warns1)"
      using r by (auto simp: bind_eq_Some_conv)
    show ?thesis
      using forEach_spec[of globalAnchorCallback spec_globalAnchor, OF globalAnchor_spec 1]
        scan_spec[OF 2] 3 by (simp add: p pg)
  next
    case False
    then show ?thesis using r by (cases st) (simp add: p pg perEntry_falsy scan_falsy)
  qed
qed

lemma navigation_spec:
  assumes run: "validateNavigation config st = Some st'"
  shows "st' = (fst st @ spec_navigation_errors config, snd st @ spec_navigation_warnings config)"
proof -
  obtain nav where n: "getProp (Val config) ''navigation'' = Some nav"
    and r: "(if \<not> truthy nav then Some (fst st @ [navigationRequiredMsg], snd st)
     else do {
       st1 \<leftarrow> navPages nav st;
       st2 \<leftarrow> navSection ''groups'' groupCallback nav st1;
       st3 \<leftarrow> navSection ''tabs'' tabCallback nav st2;
       st4 \<leftarrow> navSection ''anchors'' (requireKey ''Navigation anchor'' ''anchor'') nav st3;
       st5 \<leftarrow> navSection ''dropdowns'' (requireKey ''Navigation dropdown'' ''dropdown'') nav st4;
       st6 \<leftarrow> navScoped ''versions'' versionCallback nav st5;
       st7 \<leftarrow> navScoped ''languages'' languageCallback nav st6;
       navGlobal nav st7
     }) = Some st'"
    using run by (auto simp: validateNavigation_def bind_eq_Some_conv)
  have p: "propOf config ''navigation'' = nav" using n by (simp add: propOf_def)
  show ?thesis
  proof (cases "truthy nav")
    case False
    then show ?thesis using r
      by (simp add: spec_navigation_errors_def spec_navigation_warnings_def p)
  next
    case True
    then obtain st1 st2 st3 st4 st5 st6 st7 where
      1: "navPages nav st = Some st1" and
      2: "navSection ''groups'' groupCallback nav st1 = Some st2" and
      3: "navSection ''tabs'' tabCallback nav st2 = Some st3" and
      4: "navSection ''anchors'' (requireKey ''Navigation anchor'' ''anchor'') nav st3 = Some st4" and
      5: "navSection ''dropdowns'' (requireKey ''Navigation dropdown'' ''dropdown'') nav st4 = Some st5" and
      6: "navScoped ''versions'' versionCallback nav st5 = Some st6" and
      7: "navScoped ''languages'' languageCallback nav st6 = Some st7" and
      8: "navGlobal nav st7 = Some st'"
      using r by (auto simp: bind_eq_Some_conv)
    note s1 = navPages_spec[OF 1]
    note s2 = navSection_spec[of groupCallback spec_group, OF group_spec 2]
    note s3 = navSection_spec[of tabCallback spec_tab, OF tab_spec 3]
    note s4 = navSection_spec[of "requireKey ''Navigation anchor'' ''anchor''"
        "spec_key ''Navigation anchor'' ''anchor''", OF key_spec 4]
    note s5 = navSection_spec[of "requireKey ''Navigation dropdown'' ''dropdown''"
        "spec_key ''Navigation dropdown'' ''dropdown''", OF key_spec 5]
    note s6 = navScoped_spec[of versionCallback "spec_key ''Navigation version'' ''version''"
        spec_version, OF version_spec 6]
    note s7 = navScoped_spec[of languageCallback "spec_key ''Navigation language'' ''language''"
        spec_language, OF language_spec 7]
    note s8 = navGlobal_spec[OF 8]
    show ?thesis
      using s1 s2 s3 s4 s5 s6 s7 s8 True
      by (simp add: spec_navigation_errors_def spec_navigation_warnings_def p)
  qed
qed

lemma assets_spec:
  "validateAssets config warns = Some out \<Longrightarrow> out = warns @ spec_assets config"
  by (auto simp: validateAssets_def checkLogo_def checkFavicon_def spec_assets_def
      bind_eq_Some_conv propOf_propV Let_def dest!: readD split: if_splits)

lemma checkId_spec:
  "checkId integrations svc field re msg warns = Some out \<Longrightarrow>
   out = warns @ spec_id integrations svc field re msg"
  by (auto simp: checkId_def spec_id_def bind_eq_Some_conv Let_def dest!: readD split: if_splits)

lemma integrations_spec:
  "validateIntegrations config warns = Some out \<Longrightarrow> out = warns @ spec_integrations config"
  by (auto simp: validateIntegrations_def spec_integrations_def bind_eq_Some_conv propOf_propV
      Let_def dest!: getProp_propV checkId_spec split: if_splits)

lemma nudge_spec:
  "nudge config key msg warns = Some out \<Longrightarrow> out = warns @ spec_nudge config key msg"
  by (auto simp: nudge_def spec_nudge_def bind_eq_Some_conv propOf_propV dest!: readD
      split: if_splits)

lemma bestPractices_spec:
  "validateBestPractices config warns = Some out \<Longrightarrow> out = warns @ spec_bestPractices config"
  by (auto simp: validateBestPractices_def spec_bestPractices_def bind_eq_Some_conv
      dest!: nudge_spec)

lemma validateDocsJson_spec:
  assumes "validateDocsJson config = Some r"
  shows "r = spec_result config"
proof -
  obtain e1 e2 st w1 w2 w3 where
    1: "validateRequiredFields config [] = Some e1" and
    2: "validateColors config e1 = Some e2" and
    3: "validateNavigation config (e2, []) = Some st" and
    4: "validateAssets config (snd st) = Some w1" and
    5: "validateIntegrations config w1 = Some w2" and
    6: "validateBestPractices config w2 = Some w3" and
    7: "r = \<lparr>errors = fst st, warnings = w3, isValid = (length (fst st) = 0)\<rparr>"
    using assms by (auto simp: validateDocsJson_def bind_eq_Some_conv)
  show ?thesis
    unfolding 7 bestPractices_spec[OF 6] integrations_spec[OF 5] assets_spec[OF 4]
      navigation_spec[OF 3] colors_spec[OF 2] required_spec[OF 1]
    by (simp add: spec_result_def spec_errors_def spec_warnings_def)
qed

section \<open>Claims\<close>

text \<open>
  C1. For the document \<^verbatim>\<open>{}\<close> the validator of \<^verbatim>\<open>settings-sandbox.jsx\<close> returns a
  result whose errors are exactly the four required-field violations, for \<^verbatim>\<open>theme\<close>,
  \<^verbatim>\<open>name\<close>, \<^verbatim>\<open>colors.primary\<close> and \<^verbatim>\<open>navigation\<close> in that order, and whose
  \<^verbatim>\<open>isValid\<close> is false. (Its warnings are the four best-practice nudges.)
\<close>

theorem C1_empty_object:
  "validateDocsJson (JObj []) =
     Some \<lparr>errors = [themeRequiredMsg, nameRequiredMsg, primaryRequiredMsg, navigationRequiredMsg],
           warnings = [schemaNudge, descriptionNudge, faviconNudge, logoNudge],
           isValid = False\<rparr>"
  by (simp add: validateDocsJson_def validateRequiredFields_def validateColors_def checkPrimary_def
      checkOptionalColors_def validateNavigation_def validateAssets_def checkLogo_def
      checkFavicon_def validateIntegrations_def validateBestPractices_def nudge_def)

text \<open>
  C7. The validator is a function of the parsed document alone. Whenever it returns, its
  result is the one read off the document by \<^const>\<open>spec_errors\<close> and
  \<^const>\<open>spec_warnings\<close>: the errors of the required fields, of the colours and of the
  navigation, and the warnings of the navigation, the assets, the integrations and the
  best practices, in the order in which \<^verbatim>\<open>validateDocsJson\<close> calls the checks (lines 347
  to 352); within a check that runs over an array, the reports of the entries by
  increasing index. Validating a document again gives the same result. In
  \<^verbatim>\<open>settings-sandbox.jsx\<close>, whatever texts were entered before and whichever text the
  document is parsed from (the validator runs on a truthy document), the render shows the
  same result, or throws in both cases. In \<^verbatim>\<open>part_000\<close> and \<^verbatim>\<open>part_001\<close> the effect
  gives the same result for two texts with the same parsed document.
\<close>

theorem C7_deterministic_order:
  "(validateDocsJson config = Some r \<longrightarrow>
      r = \<lparr>errors = spec_errors config, warnings = spec_warnings config,
            isValid = (spec_errors config = [])\<rparr>) \<and>
   (session JSON_parse earlier1 = Some memos1 \<and> session JSON_parse earlier2 = Some memos2 \<and>
    truthy (Val doc) \<and> trim text1 \<noteq> [] \<and> trim text2 \<noteq> [] \<and>
    JSON_parse text1 = Inr doc \<and> JSON_parse text2 = Inr doc \<longrightarrow>
      map_option resultMemo (render JSON_parse text1 memos1) =
      map_option resultMemo (render JSON_parse text2 memos2)) \<and>
   (trim text1 \<noteq> [] \<and> trim text2 \<noteq> [] \<and>
    JSON_parse text1 = Inr doc \<and> JSON_parse text2 = Inr doc \<longrightarrow>
      onInput validate JSON_parse typeErrorMessage text1 =
      onInput validate JSON_parse typeErrorMessage text2)"
proof (intro conjI impI)
  assume "validateDocsJson config = Some r"
  then show "r = \<lparr>errors = spec_errors config, warnings = spec_warnings config,
            isValid = (spec_errors config = [])\<rparr>"
    using validateDocsJson_spec[of config r] by (simp add: spec_result_def)
next
  assume a: "session JSON_parse earlier1 = Some memos1 \<and> session JSON_parse earlier2 = Some memos2 \<and>
    truthy (Val doc) \<and> trim text1 \<noteq> [] \<and> trim text2 \<noteq> [] \<and>
    JSON_parse text1 = Inr doc \<and> JSON_parse text2 = Inr doc"
  then have p: "parsedConfig JSON_parse text1 = doc" "parsedConfig JSON_parse text2 = doc"
    by (simp_all add: parsedConfig_def)
  show "map_option resultMemo (render JSON_parse text1 memos1) =
      map_option resultMemo (render JSON_parse text2 memos2)"
    using a render_truthy[of JSON_parse earlier1 memos1 doc text1, OF _ _ p(1)]
      render_truthy[of JSON_parse earlier2 memos2 doc text2, OF _ _ p(2)]
    by simp
next
  assume "trim text1 \<noteq> [] \<and> trim text2 \<noteq> [] \<and>
    JSON_parse text1 = Inr doc \<and> JSON_parse text2 = Inr doc"
  then show "onInput validate JSON_parse typeErrorMessage text1 =
      onInput validate JSON_parse typeErrorMessage text2"
    by (simp add: onInput_def)
qed

theorem C7_deterministic_order_witness:
  "spec_errors mixedDoc = errors mixedResult \<and> spec_warnings mixedDoc = warnings mixedResult \<and>
   map_option resultMemo
     (render (parsesOnly [(''{}'', JObj []), (''{ }'', JObj [])]) ''{ }''
        \<lparr>inputDep = [], parsedMemo = JNull, resultMemo = None\<rparr>) =
   map_option resultMemo
     (render (parsesOnly [(''{}'', JObj []), (''{ }'', JObj [])]) ''{}''
        \<lparr>inputDep = ''{not json'', parsedMemo = JNull, resultMemo = None\<rparr>) \<and>
   onInput validateDocsJson_part000 (parsesOnly [(''{}'', JObj []), (''{ }'', JObj [])])
     typeErrorText ''{ }'' =
   onInput validateDocsJson_part000 (parsesOnly [(''{}'', JObj []), (''{ }'', JObj [])])
     typeErrorText ''{}''"
proof -
  let ?P = "parsesOnly [(''{}'', JObj []), (''{ }'', JObj [])]"
  let ?m1 = "\<lparr>inputDep = [], parsedMemo = JNull, resultMemo = None\<rparr>"
  let ?m2 = "\<lparr>inputDep = ''{not json'', parsedMemo = JNull, resultMemo = None\<rparr>"
  note t = C7_deterministic_order[where config = mixedDoc and r = mixedResult and doc = "JObj []"
      and ?text1.0 = "''{ }''" and ?text2.0 = "''{}''" and JSON_parse = ?P
      and ?earlier1.0 = "[]" and ?memos1.0 = ?m1
      and ?earlier2.0 = "[''{not json'', [], ''{}'']" and ?memos2.0 = ?m2
      and validate = validateDocsJson_part000 and typeErrorMessage = typeErrorText]
  have 1: "mixedResult = \<lparr>errors = spec_errors mixedDoc, warnings = spec_warnings mixedDoc,
            isValid = (spec_errors mixedDoc = [])\<rparr>"
    using t mixedDoc_result by blast
  have b: "trim ''{ }'' \<noteq> []" "trim ''{}'' \<noteq> []" "trim ''{not json'' \<noteq> []"
    by (simp_all add: trim_def isWhiteSpace_def)
  have s1: "session ?P [] = Some ?m1" by (simp add: mount_null)
  have s2: "session ?P [''{not json'', [], ''{}''] = Some ?m2"
    by code_simp
  have p: "?P ''{ }'' = Inr (JObj [])" "?P ''{}'' = Inr (JObj [])"
    by (simp_all add: parsesOnly_def)
  have 2: "map_option resultMemo (render ?P ''{ }'' ?m1) = map_option resultMemo (render ?P ''{}'' ?m2)"
    using t b s1 s2 p by simp
  have 3: "onInput validateDocsJson_part000 ?P typeErrorText ''{ }'' =
           onInput validateDocsJson_part000 ?P typeErrorText ''{}''"
    using t b p by simp
  show ?thesis using 1 2 3 by (metis ValidationResult.select_convs(1,2))
qed

text \<open>
  C5 (as amended). The check of \<^verbatim>\<open>theme\<close> goes by truthiness. When \<^verbatim>\<open>theme\<close> is absent or
  bound to a falsy value, the validator appends the one error that states the requirement
  and the seven theme names. When it is bound to a truthy value that is not one of the
  seven names, and that value converts to a string, the validator appends instead the
  error that names the value and lists the seven names. When it is one of the seven, no
  error about the theme is appended. The error about \<^verbatim>\<open>name\<close> follows in each case.
\<close>

theorem C5_theme_errors:
  assumes "getProp (Val config) ''theme'' = Some theme"
    and "getProp (Val config) ''name'' = Some name"
    and "nameErrors = (if truthy name then [] else [nameRequiredMsg])"
  shows "(\<not> truthy theme \<longrightarrow>
            validateRequiredFields config errs = Some (errs @ [themeRequiredMsg] @ nameErrors)) \<and>
         (truthy theme \<and> arrayIncludes validThemes theme \<longrightarrow>
            validateRequiredFields config errs = Some (errs @ nameErrors)) \<and>
         (truthy theme \<and> \<not> arrayIncludes validThemes theme \<and> toStr theme = Some t \<longrightarrow>
            validateRequiredFields config errs =
              Some (errs @ [''Invalid theme '' @ quoted t @
                ''. Must be one of: mint, maple, palm, willow, linden, almond, aspen''] @ nameErrors))"
  using validateRequiredFields_cases[OF assms(1,2), of errs] assms(3)
  by (simp add: invalidThemeMsg_text)

theorem C5_theme_errors_witness:
  "validateRequiredFields (JObj [(''name'', JStr ''X'')]) [] = Some [themeRequiredMsg] \<and>
   validateRequiredFields (JObj [(''theme'', JStr ''bogus''), (''name'', JStr ''X'')]) [] =
     Some [''Invalid theme 'bogus'. Must be one of: mint, maple, palm, willow, linden, almond, aspen'']"
  using C5_theme_errors[where config = "JObj [(''name'', JStr ''X'')]" and theme = Undefined
      and name = "Val (JStr ''X'')" and errs = "[]" and nameErrors = "[]"]
    C5_theme_errors[where config = "JObj [(''theme'', JStr ''bogus''), (''name'', JStr ''X'')]"
      and theme = "Val (JStr ''bogus'')" and name = "Val (JStr ''X'')" and errs = "[]"
      and t = "''bogus''" and nameErrors = "[]"]
  by (simp add: validThemes_def quoted_def)

text \<open>
  The claim as stated fails: with \<^verbatim>\<open>theme\<close> present and bound to the empty string, which
  is not one of the seven names, the error is the one for a missing theme, not a different
  one naming the value.
\<close>

theorem C5_counterexample:
  "validateRequiredFields (JObj [(''theme'', JStr ''''), (''name'', JStr ''X'')]) [] =
     Some [themeRequiredMsg]"
  by (simp add: validateRequiredFields_def)

text \<open>
  C10. Presence of \<^verbatim>\<open>theme\<close> and \<^verbatim>\<open>name\<close> is decided by truthiness. The falsy JSON
  values are \<^verbatim>\<open>null\<close>, \<^verbatim>\<open>false\<close>, \<^verbatim>\<open>0\<close> and the empty string. A document whose
  \<^verbatim>\<open>theme\<close> is bound to one of them receives the error for a missing theme, and no error
  for an invalid theme. A document whose \<^verbatim>\<open>name\<close> is bound to one of them receives the error
  for a missing name (the check of the theme runs first; it is assumed not to throw).
  \<^verbatim>\<open>part_000\<close> and \<^verbatim>\<open>part_001\<close> run the same code.
\<close>

theorem C10_falsy_is_missing:
  assumes "\<not> truthy (Val v)"
  shows "(v = JNull \<or> v = JBool False \<or> v = JNum 0 \<or> v = JStr []) \<and>
    (map_of kvs ''theme'' = Some v \<longrightarrow>
       (\<exists>rest. validateRequiredFields (JObj kvs) errs = Some (errs @ themeRequiredMsg # rest) \<and>
               invalidThemeMsg t \<notin> set rest)) \<and>
    (map_of kvs ''name'' = Some v \<and> getProp (Val (JObj kvs)) ''theme'' = Some theme \<and>
       toStr theme = Some s \<longrightarrow>
       (\<exists>before. validateRequiredFields (JObj kvs) errs = Some (errs @ before @ [nameRequiredMsg])))"
proof (intro conjI impI)
  show "v = JNull \<or> v = JBool False \<or> v = JNum 0 \<or> v = JStr []"
    using assms by (simp add: falsy_json)
next
  assume th: "map_of kvs ''theme'' = Some v"
  obtain name where n: "getProp (Val (JObj kvs)) ''name'' = Some name" by simp
  have "validateRequiredFields (JObj kvs) errs =
        Some (errs @ themeRequiredMsg # (if truthy name then [] else [nameRequiredMsg]))"
    using validateRequiredFields_cases[of "JObj kvs" "Val v" name errs] th n assms by simp
  then show "\<exists>rest. validateRequiredFields (JObj kvs) errs = Some (errs @ themeRequiredMsg # rest) \<and>
               invalidThemeMsg t \<notin> set rest"
    using required_ne_invalid(2)[of t] by auto
next
  assume a: "map_of kvs ''name'' = Some v \<and> getProp (Val (JObj kvs)) ''theme'' = Some theme \<and>
       toStr theme = Some s"
  then have n: "getProp (Val (JObj kvs)) ''name'' = Some (Val v)" by simp
  show "\<exists>before. validateRequiredFields (JObj kvs) errs = Some (errs @ before @ [nameRequiredMsg])"
    using validateRequiredFields_cases[of "JObj kvs" theme "Val v" errs] a n assms
    by (auto simp del: getProp.simps)
qed

theorem C10_falsy_is_missing_witness:
  "validateRequiredFields (JObj [(''theme'', JNum 0), (''name'', JNum 0)]) [] =
     Some [themeRequiredMsg, nameRequiredMsg]"
proof -
  have f: "\<not> truthy (Val (JNum 0))" by simp
  from C10_falsy_is_missing[OF f, where kvs = "[(''theme'', JNum 0), (''name'', JNum 0)]"
      and errs = "[]" and t = "[]" and theme = "Val (JNum 0)" and s = "''0''"]
  show ?thesis by (simp add: validateRequiredFields_def)
qed

text \<open>
  C9. In a document that is valid otherwise, the menu entry \<^verbatim>\<open>{}\<close> of the tab
  \<^verbatim>\<open>Docs\<close> gets the error that names its index and the tab. The menu entry \<^verbatim>\<open>null\<close>
  has no \<^verbatim>\<open>item\<close> either; on it the callback reads \<^verbatim>\<open>menuItem.item\<close> (line 215),
  which throws a \<^verbatim>\<open>TypeError\<close> that nothing catches: the validator appends no error and
  returns no result. The path scanner tests \<^verbatim>\<open>item !== null\<close> (line 49) before it reads
  a property of an entry, and returns on the same menu.
\<close>

theorem C9_null_menu_entry:
  "validateDocsJson (JObj [(''theme'', JStr ''mint''), (''name'', JStr ''X''),
     (''colors'', JObj [(''primary'', JStr ''#0066cc'')]),
     (''navigation'', JObj [(''tabs'',
        JArr [JObj [(''tab'', JStr ''Docs''), (''menu'', JArr [JNull])]])])]) = None \<and>
   map_option errors (validateDocsJson (JObj [(''theme'', JStr ''mint''), (''name'', JStr ''X''),
     (''colors'', JObj [(''primary'', JStr ''#0066cc'')]),
     (''navigation'', JObj [(''tabs'',
        JArr [JObj [(''tab'', JStr ''Docs''), (''menu'', JArr [JObj []])]])])])) =
     Some [''Menu item at index 0 in tab 'Docs' is missing 'item' property''] \<and>
   checkNavigationPaths (Val (JArr [JNull])) [] (''Tab '' @ quoted ''Docs'') = Some []"
  by code_simp

text \<open>
  C6 (as amended). No variant accepts both keys. In \<^verbatim>\<open>settings-sandbox.jsx\<close> an entry
  of \<^verbatim>\<open>navigation.tabs\<close> needs a truthy \<^verbatim>\<open>tab\<close>, else an error indexed by position is
  appended; \<^verbatim>\<open>name\<close> and \<^verbatim>\<open>url\<close> are not read. In \<^verbatim>\<open>part_000\<close> and \<^verbatim>\<open>part_001\<close> an
  entry needs a truthy \<^verbatim>\<open>name\<close>, else an error indexed by position, and a truthy
  \<^verbatim>\<open>url\<close>, else an error naming the tab; \<^verbatim>\<open>tab\<close> is not read. (The entry is not
  \<^verbatim>\<open>null\<close>, has no menu, and its name converts to a string.)
\<close>

theorem C6_tab_keys:
  assumes "tab \<noteq> JNull"
    and "\<not> truthy (propOf tab ''menu'')"
    and "toStr (propOf tab ''name'') = Some name"
  shows "tabCallback tab index errs =
           Some (errs @ (if truthy (propOf tab ''tab'') then []
                         else [''Navigation tab at index '' @ showNat index @
                               '' is missing 'tab' property''])) \<and>
         tabCallback_old tab index errs =
           Some (errs @ (if truthy (propOf tab ''name'') then []
                         else [''Navigation tab at index '' @ showNat index @
                               '' is missing 'name' property'']) @
                        (if truthy (propOf tab ''url'') then []
                         else [''Navigation tab '' @ quoted name @ '' is missing 'url' property'']))"
  using assms
  by (simp add: tabCallback_def tabCallback_old_def requireKey_eq getProp_propOf missingMsg_def
      quoted_def)

theorem C6_tab_keys_witness:
  "tabCallback (JObj [(''name'', JStr ''Docs''), (''url'', JStr ''docs'')]) 0 [] =
     Some [''Navigation tab at index 0 is missing 'tab' property''] \<and>
   tabCallback_old (JObj [(''name'', JStr ''Docs''), (''url'', JStr ''docs'')]) 0 [] = Some []"
  using C6_tab_keys[where tab = "JObj [(''name'', JStr ''Docs''), (''url'', JStr ''docs'')]"
      and name = "''Docs''" and index = 0 and errs = "[]"]
  by (simp add: propOf_def showNat.simps)

text \<open>
  The claim as stated fails in every variant. \<^verbatim>\<open>settings-sandbox.jsx\<close> rejects a tab in
  the legacy shape, \<^verbatim>\<open>{"name": "Docs", "url": "docs"}\<close>, in an otherwise valid document;
  \<^verbatim>\<open>part_000\<close> rejects the tab \<^verbatim>\<open>{"tab": "Docs"}\<close>.
\<close>

theorem C6_counterexample:
  "map_option errors (validateDocsJson (JObj [(''theme'', JStr ''mint''), (''name'', JStr ''X''),
     (''colors'', JObj [(''primary'', JStr ''#0066cc'')]),
     (''navigation'', JObj [(''tabs'',
        JArr [JObj [(''name'', JStr ''Docs''), (''url'', JStr ''docs'')]])])])) =
     Some [''Navigation tab at index 0 is missing 'tab' property''] \<and>
   map_option errors (validateDocsJson_part000 (JObj [(''theme'', JStr ''mint''),
     (''name'', JStr ''X''), (''colors'', JObj [(''primary'', JStr ''#0066cc'')]),
     (''navigation'', JObj [(''tabs'', JArr [JObj [(''tab'', JStr ''Docs'')]])])])) =
     Some [''Navigation tab at index 0 is missing 'name' property'',
           ''Navigation tab 'undefined' is missing 'url' property'']"
  by code_simp

text \<open>
  C4 (as amended). Take an input text that is not blank (not empty after \<^verbatim>\<open>trim\<close>) and
  that \<^verbatim>\<open>JSON.parse\<close> rejects. In \<^verbatim>\<open>part_000\<close> and \<^verbatim>\<open>part_001\<close> the effect gives a
  \<^verbatim>\<open>ValidationResult\<close> whose errors are the single parse-error item with the parser's
  message, whose warnings are empty and whose \<^verbatim>\<open>isValid\<close> is false, whatever the validator
  is: it is not run. In \<^verbatim>\<open>settings-sandbox.jsx\<close>, when the text changes to such a text and
  the previous \<^verbatim>\<open>parsedConfig\<close> was not \<^verbatim>\<open>null\<close>, the render recomputes
  \<^verbatim>\<open>validationResult\<close> and gives the single item with the fixed text. (When the previous
  \<^verbatim>\<open>parsedConfig\<close> was \<^verbatim>\<open>null\<close> the memo is not recomputed and the previous result
  stays: the dependencies at line 380 leave out \<^verbatim>\<open>jsonInput\<close>.)
\<close>

theorem C4_parse_error:
  assumes "trim jsonInput \<noteq> []" and "JSON_parse jsonInput = Inl message"
  shows "(jsonInput \<noteq> inputDep memos \<and> parsedMemo memos \<noteq> JNull \<longrightarrow>
            render JSON_parse jsonInput memos =
              Some \<lparr>inputDep = jsonInput, parsedMemo = JNull,
                    resultMemo = Some \<lparr>errors = [''JSON Parse Error: Invalid JSON format''],
                                        warnings = [], isValid = False\<rparr>\<rparr>) \<and>
         onInput validate JSON_parse typeErrorMessage jsonInput =
           (Some \<lparr>errors = [''JSON Parse Error: '' @ message], warnings = [], isValid = False\<rparr>,
            JNull)"
  using assms
  by (simp add: render_def sameValue_def validationResult_def parsedConfig_def onInput_def
      parseErrorResult_def)

theorem C4_parse_error_witness:
  "render (rejects ''Unexpected token n'') ''{not json'' afterEmptyObject =
     Some \<lparr>inputDep = ''{not json'', parsedMemo = JNull,
           resultMemo = Some \<lparr>errors = [''JSON Parse Error: Invalid JSON format''],
                               warnings = [], isValid = False\<rparr>\<rparr> \<and>
   fst (onInput validateDocsJson_part000 (rejects ''Unexpected token n'') typeErrorText ''{not json'') =
     Some \<lparr>errors = [''JSON Parse Error: Unexpected token n''], warnings = [], isValid = False\<rparr>"
  using C4_parse_error[where jsonInput = "''{not json''" and JSON_parse = "rejects ''Unexpected token n''"
      and message = "''Unexpected token n''" and validate = validateDocsJson_part000
      and typeErrorMessage = typeErrorText and memos = afterEmptyObject]
  by (simp add: trim_def isWhiteSpace_def rejects_def afterEmptyObject_def)

text \<open>
  The claim as stated fails on a blank text: the empty text is not JSON, and when the
  text \<^verbatim>\<open>{}\<close> is cleared the result is \<^verbatim>\<open>null\<close> (line 370), not a
  \<^verbatim>\<open>ValidationResult\<close>. It also fails when \<^verbatim>\<open>{not json\<close> is entered next:
  \<^verbatim>\<open>parsedConfig\<close> stays \<^verbatim>\<open>null\<close>, the memo is not recomputed, and the result stays
  \<^verbatim>\<open>null\<close>.
\<close>

theorem C4_counterexample:
  "parsesOnly [(''{}'', JObj [])] [] = Inl ''Unexpected token'' \<and>
   parsesOnly [(''{}'', JObj [])] ''{not json'' = Inl ''Unexpected token'' \<and>
   session (parsesOnly [(''{}'', JObj [])]) [[], ''{}''] =
     Some \<lparr>inputDep = [], parsedMemo = JNull, resultMemo = None\<rparr> \<and>
   session (parsesOnly [(''{}'', JObj [])]) [''{not json'', [], ''{}''] =
     Some \<lparr>inputDep = ''{not json'', parsedMemo = JNull, resultMemo = None\<rparr>"
  by code_simp

text \<open>
  C2 (as amended). In \<^verbatim>\<open>part_000\<close> and \<^verbatim>\<open>part_001\<close> the effect gives no result
  (\<^verbatim>\<open>null\<close>) for a blank text and a \<^verbatim>\<open>ValidationResult\<close> for every other text, whatever
  the validator does (what is thrown is caught). In \<^verbatim>\<open>settings-sandbox.jsx\<close> the first
  render, with the empty text, gives \<^verbatim>\<open>null\<close>. On a later render the two memos are
  computed without an exception when the text is blank, is not JSON, or is the JSON of
  \<^verbatim>\<open>null\<close>, a scalar or an array; when the render recomputes \<^verbatim>\<open>validationResult\<close>,
  the result is \<^verbatim>\<open>null\<close> for a blank text and a \<^verbatim>\<open>ValidationResult\<close> otherwise.
\<close>

theorem C2_pipeline:
  "(trim jsonInput = [] \<longrightarrow>
      fst (onInput validate JSON_parse typeErrorMessage jsonInput) = None) \<and>
   (trim jsonInput \<noteq> [] \<longrightarrow>
      (\<exists>r. fst (onInput validate JSON_parse typeErrorMessage jsonInput) = Some r)) \<and>
   mount JSON_parse = Some \<lparr>inputDep = [], parsedMemo = JNull, resultMemo = None\<rparr> \<and>
   ((\<forall>kvs. parsedConfig JSON_parse jsonInput \<noteq> JObj kvs) \<longrightarrow>
      (\<exists>memos'. render JSON_parse jsonInput memos = Some memos' \<and>
         (jsonInput \<noteq> inputDep memos \<and>
          \<not> sameValue (parsedMemo memos) (parsedConfig JSON_parse jsonInput) \<longrightarrow>
            (trim jsonInput = [] \<longrightarrow> resultMemo memos' = None) \<and>
            (trim jsonInput \<noteq> [] \<longrightarrow> (\<exists>r. resultMemo memos' = Some r)))))"
proof (intro conjI impI)
  assume "trim jsonInput = []"
  then show "fst (onInput validate JSON_parse typeErrorMessage jsonInput) = None"
    by (simp add: onInput_def)
next
  assume "trim jsonInput \<noteq> []"
  then show "\<exists>r. fst (onInput validate JSON_parse typeErrorMessage jsonInput) = Some r"
    by (simp add: onInput_def split: sum.splits option.splits)
next
  show "mount JSON_parse = Some \<lparr>inputDep = [], parsedMemo = JNull, resultMemo = None\<rparr>"
    by (rule mount_null)
next
  let ?p = "parsedConfig JSON_parse jsonInput"
  assume no: "\<forall>kvs. ?p \<noteq> JObj kvs"
  have body: "validationResult jsonInput ?p =
      Some (if trim jsonInput = [] then None
            else if \<not> truthy (Val ?p) then Some (parseErrorResult ''Invalid JSON format'')
            else Some nonObjectResult)"
  proof (cases "truthy (Val ?p)")
    case True
    then have "?p \<noteq> JNull" by auto
    then have "validateDocsJson ?p = Some nonObjectResult"
      using no by (intro validateDocsJson_nonObject) auto
    then show ?thesis using True by (simp add: validationResult_def)
  next
    case False
    then show ?thesis by (simp add: validationResult_def)
  qed
  show "\<exists>memos'. render JSON_parse jsonInput memos = Some memos' \<and>
         (jsonInput \<noteq> inputDep memos \<and> \<not> sameValue (parsedMemo memos) ?p \<longrightarrow>
            (trim jsonInput = [] \<longrightarrow> resultMemo memos' = None) \<and>
            (trim jsonInput \<noteq> [] \<longrightarrow> (\<exists>r. resultMemo memos' = Some r)))"
    by (simp add: render_def body Let_def)
qed

theorem C2_pipeline_witness:
  "render (parsesTo (JArr [])) ''[]'' \<lparr>inputDep = [], parsedMemo = JNull, resultMemo = None\<rparr> =
     Some \<lparr>inputDep = ''[]'', parsedMemo = JArr [],
           resultMemo = Some \<lparr>errors = [themeRequiredMsg, nameRequiredMsg, primaryRequiredMsg,
                                          navigationRequiredMsg],
                               warnings = [schemaNudge, descriptionNudge, faviconNudge, logoNudge],
                               isValid = False\<rparr>\<rparr> \<and>
   fst (onInput validateDocsJson_part000 (parsesTo (JArr [])) typeErrorText ''  '') = None \<and>
   (\<exists>r. fst (onInput validateDocsJson_part000 (parsesTo (JArr [])) typeErrorText ''[]'') = Some r)"
proof -
  note t1 = C2_pipeline[where jsonInput = "''[]''" and JSON_parse = "parsesTo (JArr [])"
      and memos = "\<lparr>inputDep = [], parsedMemo = JNull, resultMemo = None\<rparr>"
      and validate = validateDocsJson_part000 and typeErrorMessage = typeErrorText]
  note t2 = C2_pipeline[where jsonInput = "''  ''" and JSON_parse = "parsesTo (JArr [])"
      and validate = validateDocsJson_part000 and typeErrorMessage = typeErrorText]
  have b: "trim ''[]'' \<noteq> []" "trim ''  '' = []" by (simp_all add: trim_def isWhiteSpace_def)
  have p: "parsedConfig (parsesTo (JArr [])) ''[]'' = JArr []"
    by (simp add: parsedConfig_def parsesTo_def b)
  have 1: "render (parsesTo (JArr [])) ''[]'' \<lparr>inputDep = [], parsedMemo = JNull, resultMemo = None\<rparr> =
     Some \<lparr>inputDep = ''[]'', parsedMemo = JArr [],
           resultMemo = Some \<lparr>errors = [themeRequiredMsg, nameRequiredMsg, primaryRequiredMsg,
                                          navigationRequiredMsg],
                               warnings = [schemaNudge, descriptionNudge, faviconNudge, logoNudge],
                               isValid = False\<rparr>\<rparr>"
    using validateDocsJson_nonObject[of "JArr []"]
    by (simp add: render_def p sameValue_def validationResult_def nonObjectResult_def Let_def b)
  show ?thesis using 1 t1 t2 b by simp
qed

text \<open>
  The claim as stated fails twice in \<^verbatim>\<open>settings-sandbox.jsx\<close>: for the empty text, at
  the first render, the result is \<^verbatim>\<open>null\<close>; and on the text \<^verbatim>\<open>{"favicon": 5}\<close> the call
  \<^verbatim>\<open>config.favicon.match\<close> (line 303) throws a \<^verbatim>\<open>TypeError\<close> that nothing catches.
\<close>

theorem C2_counterexample:
  \<open>mount (rejects ''Unexpected end of JSON input'') =
     Some \<lparr>inputDep = '''', parsedMemo = JNull, resultMemo = None\<rparr> \<and>
   render (parsesTo (JObj [(''favicon'', JNum 5)])) ''{"favicon": 5}'' afterEmptyObject = None\<close>
  by (simp add: mount_def rejects_def parsesTo_def render_def sameValue_def validationResult_def trim_def
      afterEmptyObject_def
      isWhiteSpace_def parsedConfig_def validateDocsJson_def validateRequiredFields_def
      validateColors_def checkPrimary_def checkOptionalColors_def validateNavigation_def
      validateAssets_def checkLogo_def checkFavicon_def)

text \<open>
  C8. The document of scenario 1 passes, with no error. Add to it the field
  \<^verbatim>\<open>favicon\<close>, bound to an object with the variants \<^verbatim>\<open>light\<close> and \<^verbatim>\<open>dark\<close>: section 3
  of the specification allows a string or an object with variants, and the rule on the
  favicon (section 4.2) applies to a string. On that document the call
  \<^verbatim>\<open>config.favicon.match\<close> (line 303) throws a \<^verbatim>\<open>TypeError\<close> that nothing catches, and the
  validator returns no result, where the errors list should still be empty. \<^verbatim>\<open>part_001\<close>
  tests \<^verbatim>\<open>typeof config.favicon !== 'string'\<close> first (lines 108 to 115) and accepts the
  same document with no error.
\<close>

theorem C8_favicon_variants:
  "validateDocsJson (JObj passingDoc) =
     Some \<lparr>errors = [], warnings = [schemaNudge, descriptionNudge, faviconNudge, logoNudge],
           isValid = True\<rparr> \<and>
   validateDocsJson (JObj (passingDoc @ [(''favicon'',
     JObj [(''light'', JStr ''/favicon-light.png''), (''dark'', JStr ''/favicon-dark.png'')])])) = None \<and>
   map_option errors (validateDocsJson_part001 (JObj (passingDoc @ [(''favicon'',
     JObj [(''light'', JStr ''/favicon-light.png''), (''dark'', JStr ''/favicon-dark.png'')])]))) =
     Some []"
  by code_simp

text \<open>
  C3 (as amended). In \<^verbatim>\<open>settings-sandbox.jsx\<close>, \<^verbatim>\<open>checkNavigationPaths\<close> returns on
  every tree in which no object has a property of its own called \<^verbatim>\<open>toString\<close> (so that
  the names it interpolates convert to strings); whenever it returns, the warnings it has
  appended correspond one to one, in document order, to the occurrences listed by
  \<^const>\<open>spec_reservedRefs\<close>: one warning for each page string and for each string
  \<^verbatim>\<open>href\<close> not starting with \<^verbatim>\<open>http\<close> whose segments include \<^verbatim>\<open>mcp\<close>, the warning naming
  that path. An \<^verbatim>\<open>href\<close> that starts with \<^verbatim>\<open>http\<close> gets no warning.
\<close>

theorem C3_scanner:
  "(printableV items \<longrightarrow> checkNavigationPaths items warns ctx \<noteq> None) \<and>
   (checkNavigationPaths items warns ctx = Some out \<longrightarrow>
      (\<exists>ws. out = warns @ ws \<and> list_all2 refersTo ws (spec_reservedRefs items))) \<and>
   (startsWith h ''http'' \<longrightarrow>
      checkNavigationPaths (Val (JArr [JObj [(''href'', JStr h)]])) warns ctx = Some warns)"
proof (intro conjI impI)
  assume "printableV items"
  then show "checkNavigationPaths items warns ctx \<noteq> None"
    using checkNavigationPaths_total[of items warns ctx] by auto
next
  assume "checkNavigationPaths items warns ctx = Some out"
  then obtain a where "checkNavigationPaths items [] ctx = Some a" "out = warns @ a"
    using checkNavigationPaths_app by blast
  then show "\<exists>ws. out = warns @ ws \<and> list_all2 refersTo ws (spec_reservedRefs items)"
    using checkNavigationPaths_refs by blast
next
  assume "startsWith h ''http''"
  then show "checkNavigationPaths (Val (JArr [JObj [(''href'', JStr h)]])) warns ctx = Some warns"
    by (simp add: checkNavigationPaths.simps checkNavigationPaths_callback.simps checkHref_def)
qed

theorem C3_scanner_witness:
  "checkNavigationPaths (Val (JArr guideTree)) [] [] \<noteq> None \<and>
   list_all2 refersTo
     [''Navigation item 'G' page 'guides/mcp/setup' uses reserved path. /mcp paths are reserved and may cause 404 errors'',
      '' href 'docs/mcp' uses reserved path. /mcp paths are reserved and may cause 404 errors'']
     [(''page'', ''guides/mcp/setup''), (''href'', ''docs/mcp'')] \<and>
   checkNavigationPaths (Val (JArr [JObj [(''href'', JStr ''http://host/mcp/setup'')]])) [] [] = Some []"
proof -
  let ?out = "[''Navigation item 'G' page 'guides/mcp/setup' uses reserved path. /mcp paths are reserved and may cause 404 errors'',
      '' href 'docs/mcp' uses reserved path. /mcp paths are reserved and may cause 404 errors'']"
  have p: "printableV (Val (JArr guideTree))" by (simp add: guideTree_def)
  have s: "checkNavigationPaths (Val (JArr guideTree)) [] [] = Some ?out" by (rule guideTree_scan)
  have h: "startsWith ''http://host/mcp/setup'' ''http''" by (simp add: startsWith_def)
  note t = C3_scanner[where items = "Val (JArr guideTree)" and warns = "[]" and ctx = "[]"
      and out = ?out and h = "''http://host/mcp/setup''"]
  have 1: "checkNavigationPaths (Val (JArr guideTree)) [] [] \<noteq> None" using t p by blast
  have 2: "list_all2 refersTo ?out (spec_reservedRefs (Val (JArr guideTree)))"
    using t s by auto
  have 3: "checkNavigationPaths (Val (JArr [JObj [(''href'', JStr ''http://host/mcp/setup'')]])) [] [] = Some []"
    using t h by blast
  show ?thesis using 1 2 3 unfolding guideTree_refs by blast
qed

text \<open>
  The claim as stated fails in \<^verbatim>\<open>part_001\<close>, whose check (lines 78 to 82) looks for the
  substrings \<^verbatim>\<open>/api\<close> and \<^verbatim>\<open>/mcp\<close>: the page \<^verbatim>\<open>mcp/setup\<close> has the segment \<^verbatim>\<open>mcp\<close>
  and gets no warning.
\<close>

theorem C3_counterexample:
  "reservedPath ''mcp/setup'' \<and>
   validateDocsJson_part001 (JObj [(''theme'', JStr ''mint''), (''name'', JStr ''X''),
     (''colors'', JObj [(''primary'', JStr ''#0066cc'')]),
     (''navigation'', JObj [(''groups'',
        JArr [JObj [(''group'', JStr ''G''), (''pages'', JArr [JStr ''mcp/setup''])]])])]) =
     Some \<lparr>errors = [], warnings = [schemaNudge_part001, descriptionNudge_part001],
           isValid = True\<rparr>"
  by code_simp

end
